theory Spec2Isabelle
  imports Complex_Main "HOL-Library.AList"
begin

section \<open>JavaScript values\<close>

text \<open>
  The plugin (\<^verbatim>\<open>plugin/src/code.ts\<close>) receives its parameters as parsed JSON, typed
  \<^verbatim>\<open>any\<close>, and probes host nodes for the properties they expose. Values are therefore
  modelled dynamically. Numbers are rationals: the claims read numbers only through
  truthiness and equality, so the rounding of IEEE doubles plays no role. \<open>JMixed\<close> is the
  host's \<^verbatim>\<open>figma.mixed\<close> symbol, \<open>JBytes\<close> a \<^verbatim>\<open>Uint8Array\<close>. An object is the list of its
  own properties in insertion order.
\<close>

datatype jsval =
    JUndefined
  | JNull
  | JBool bool
  | JNum rat
  | JStr string
  | JArr "jsval list"
  | JObj "(string \<times> jsval) list"
  | JMixed
  | JBytes "nat list"

type_synonym jsobj = "(string \<times> jsval) list"

text \<open>
  Every value thrown in the source is an \<^verbatim>\<open>Error\<close>: the explicit \<^verbatim>\<open>throw new Error(...)\<close>
  and the \<^verbatim>\<open>TypeError\<close> of the language for a property read on \<^verbatim>\<open>undefined\<close>/\<^verbatim>\<open>null\<close>
  or a call of something that is not a function. The text of a \<^verbatim>\<open>TypeError\<close> is chosen
  by the engine; the one carried here only describes the failing operation.
\<close>

datatype error = Error string | TypeError string

fun message :: "error \<Rightarrow> string" where
  "message (Error m) = m"
| "message (TypeError m) = m"

text \<open>Truthiness, as used by \<^verbatim>\<open>!v\<close>, \<^verbatim>\<open>a || b\<close> and \<^verbatim>\<open>if (v)\<close>.\<close>

fun truthy :: "jsval \<Rightarrow> bool" where
  "truthy JUndefined = False"
| "truthy JNull = False"
| "truthy (JBool b) = b"
| "truthy (JNum n) = (n \<noteq> 0)"
| "truthy (JStr s) = (s \<noteq> [])"
| "truthy _ = True"

text \<open>\<^verbatim>\<open>a || b\<close>.\<close>

definition js_or :: "jsval \<Rightarrow> jsval \<Rightarrow> jsval" where
  "js_or a b = (if truthy a then a else b)"

text \<open>
  \<^verbatim>\<open>a === b\<close>. Primitives compare by value. Arrays and objects compare by reference;
  every object met by a comparison in the source is on one side freshly parsed from a
  message, hence never the same reference as the other side.
\<close>

fun strict_eq :: "jsval \<Rightarrow> jsval \<Rightarrow> bool" where
  "strict_eq JUndefined JUndefined = True"
| "strict_eq JNull JNull = True"
| "strict_eq (JBool a) (JBool b) = (a = b)"
| "strict_eq (JNum a) (JNum b) = (a = b)"
| "strict_eq (JStr a) (JStr b) = (a = b)"
| "strict_eq JMixed JMixed = True"
| "strict_eq _ _ = False"

text \<open>Reading an own property of a plain object: \<^verbatim>\<open>undefined\<close> when it is missing.\<close>

definition lookup :: "jsobj \<Rightarrow> string \<Rightarrow> jsval" where
  "lookup ps k = (case map_of ps k of None \<Rightarrow> JUndefined | Some v \<Rightarrow> v)"

text \<open>
  \<^verbatim>\<open>v.k\<close> for the property names the source reads (\<^verbatim>\<open>type\<close>, \<^verbatim>\<open>color\<close>), none of
  which a primitive or an array has: \<^verbatim>\<open>undefined\<close> there, a \<^verbatim>\<open>TypeError\<close> on
  \<^verbatim>\<open>undefined\<close> and \<^verbatim>\<open>null\<close>.
\<close>

fun get_prop :: "jsval \<Rightarrow> string \<Rightarrow> error + jsval" where
  "get_prop JUndefined k = Inl (TypeError (''Cannot read properties of undefined (reading '' @ k @ '')''))"
| "get_prop JNull k = Inl (TypeError (''Cannot read properties of null (reading '' @ k @ '')''))"
| "get_prop (JObj ps) k = Inr (lookup ps k)"
| "get_prop _ k = Inr JUndefined"

text \<open>\<^verbatim>\<open>s.startsWith(p)\<close> on strings.\<close>

definition startsWith :: "string \<Rightarrow> string \<Rightarrow> bool" where
  "startsWith s p = (take (length p) s = p)"

text \<open>
  \<^verbatim>\<open>v.startsWith(p)\<close> on an arbitrary value: only a string has the method.
\<close>

fun call_startsWith :: "jsval \<Rightarrow> string \<Rightarrow> error + bool" where
  "call_startsWith (JStr s) p = Inr (startsWith s p)"
| "call_startsWith JUndefined p = Inl (TypeError ''Cannot read properties of undefined (reading startsWith)'')"
| "call_startsWith JNull p = Inl (TypeError ''Cannot read properties of null (reading startsWith)'')"
| "call_startsWith _ p = Inl (TypeError ''startsWith is not a function'')"

section \<open>Host objects\<close>

text \<open>
  A scene node is the map of the properties it exposes; \<^verbatim>\<open>'k' in node\<close> asks whether
  \<open>k\<close> is one of them. The children of a container are nodes again
  (\<^verbatim>\<open>ReadonlyArray<SceneNode>\<close>) and are kept apart from the other properties.
  What the host itself does when a property is assigned (validation, side effects on
  other properties) is outside the source: an assignment \<^verbatim>\<open>node.k = v\<close> stores \<open>v\<close>.
\<close>

datatype node = Node (nprops: jsobj) (nchildren: "node list option")

definition in_node :: "string \<Rightarrow> node \<Rightarrow> bool" where
  "in_node k n = (if k = ''children'' then nchildren n \<noteq> None else map_of (nprops n) k \<noteq> None)"

definition node_get :: "node \<Rightarrow> string \<Rightarrow> jsval" where
  "node_get n k = lookup (nprops n) k"

definition node_set :: "node \<Rightarrow> string \<Rightarrow> jsval \<Rightarrow> node" where
  "node_set n k v = Node (AList.update k v (nprops n)) (nchildren n)"

record paintStyle =
  style_id :: string
  style_name :: jsval
  style_description :: string
  style_paints :: "jsval list"

section \<open>Paint helpers\<close>

text \<open>\<^verbatim>\<open>Array.isArray(v) ? Array.from(v) : []\<close>.\<close>

definition array_or_empty :: "jsval \<Rightarrow> jsval list" where
  "array_or_empty v = (case v of JArr ps \<Rightarrow> ps | _ \<Rightarrow> [])"

text \<open>
  \<^verbatim>\<open>setFillColor\<close> and \<^verbatim>\<open>setStrokeColor\<close> differ only in the property they read and
  write, as do \<^verbatim>\<open>setFillGradient\<close> and \<^verbatim>\<open>setStrokeGradient\<close>; each pair shares one
  body, parameterised by the property name.
\<close>

definition setColor :: "string \<Rightarrow> node \<Rightarrow> jsval \<Rightarrow> error + node" where
  "setColor prop n color =
     (let paints = array_or_empty (node_get n prop);
          solidPaint = JObj [(''type'', JStr ''SOLID''), (''color'', color)]
      in if length paints > 0 then
           (case get_prop (paints ! 0) ''type'' of
              Inl e \<Rightarrow> Inl e
            | Inr t \<Rightarrow>
                if strict_eq t (JStr ''SOLID'')
                then Inr (node_set n prop (JArr (paints[0 := solidPaint])))
                else Inr (node_set n prop (JArr (solidPaint # paints))))
         else Inr (node_set n prop (JArr (solidPaint # paints))))"

definition setFillColor :: "node \<Rightarrow> jsval \<Rightarrow> error + node" where
  "setFillColor = setColor ''fills''"

definition setStrokeColor :: "node \<Rightarrow> jsval \<Rightarrow> error + node" where
  "setStrokeColor = setColor ''strokes''"

definition setGradient :: "string \<Rightarrow> node \<Rightarrow> jsval \<Rightarrow> error + node" where
  "setGradient prop n gradient =
     (let paints = array_or_empty (node_get n prop)
      in if length paints > 0 then
           (case get_prop (paints ! 0) ''type'' of
              Inl e \<Rightarrow> Inl e
            | Inr t \<Rightarrow>
                (case call_startsWith t ''GRADIENT'' of
                   Inl e \<Rightarrow> Inl e
                 | Inr True \<Rightarrow> Inr (node_set n prop (JArr (paints[0 := gradient])))
                 | Inr False \<Rightarrow> Inr (node_set n prop (JArr (gradient # paints)))))
         else Inr (node_set n prop (JArr (gradient # paints))))"

definition setFillGradient :: "node \<Rightarrow> jsval \<Rightarrow> error + node" where
  "setFillGradient = setGradient ''fills''"

definition setStrokeGradient :: "node \<Rightarrow> jsval \<Rightarrow> error + node" where
  "setStrokeGradient = setGradient ''strokes''"

definition setStrokeWeight :: "node \<Rightarrow> jsval \<Rightarrow> node" where
  "setStrokeWeight n strokeWeight = node_set n ''strokeWeight'' strokeWeight"

text \<open>
  \<^verbatim>\<open>[...v]\<close> for a truthy \<open>v\<close>: arrays, strings and typed arrays are iterable, the other
  truthy values are not.
\<close>

fun spread :: "jsval \<Rightarrow> error + jsval list" where
  "spread (JArr es) = Inr es"
| "spread (JStr s) = Inr (map (\<lambda>c. JStr [c]) s)"
| "spread (JBytes bs) = Inr (map (\<lambda>b. JNum (of_nat b)) bs)"
| "spread _ = Inl (TypeError ''value is not iterable'')"

definition setEffect :: "node \<Rightarrow> jsval \<Rightarrow> error + node" where
  "setEffect n effect =
     (case (if truthy (node_get n ''effects'') then spread (node_get n ''effects'') else Inr []) of
        Inl e \<Rightarrow> Inl e
      | Inr effects \<Rightarrow> Inr (node_set n ''effects'' (JArr (effects @ [effect]))))"

section \<open>The host\<close>

text \<open>
  \<open>figma\<close> is the state of the host that the handlers read and write: the selection of
  the current page, the local paint styles, the viewport, the page's identity, the
  messages posted to the UI with \<^verbatim>\<open>figma.ui.postMessage\<close> and the calls of \<^verbatim>\<open>exportAsync\<close>
  made so far. Selected nodes are held by value; no claim depends on two references to
  one node.
\<close>

record figma =
  selection :: "node list"
  localPaintStyles :: "paintStyle list"
  center_x :: rat
  center_y :: rat
  zoom :: rat
  page_id :: string
  page_name :: string
  posted :: "jsobj list"
  exported :: "(node \<times> jsobj) list"

text \<open>
  \<open>host\<close> collects what the source asks of the host and of the language runtime without
  determining the answer: the node or style a \<^verbatim>\<open>create...\<close> call returns, the viewport
  after \<^verbatim>\<open>scrollAndZoomIntoView\<close>, the style \<^verbatim>\<open>getStyleById\<close> finds, the outcome of
  \<^verbatim>\<open>exportAsync\<close> (awaited and taken to settle; a rejection is the \<open>Inl\<close> case), the
  clock, the string conversion of a value that is not a string, and
  \<^verbatim>\<open>String.prototype.toUpperCase\<close>, whose mapping is that of the Unicode character
  database and not of the source.
\<close>

record host =
  createRectangle :: "figma \<Rightarrow> node"
  createText :: "figma \<Rightarrow> node"
  createPaintStyle :: "figma \<Rightarrow> paintStyle"
  scrollAndZoomIntoView :: "node list \<Rightarrow> figma \<Rightarrow> rat \<times> rat \<times> rat"
  getStyleById :: "figma \<Rightarrow> jsval \<Rightarrow> paintStyle option"
  exportAsync :: "node \<Rightarrow> jsobj \<Rightarrow> error + jsval"
  toISOString :: string
  toString :: "jsval \<Rightarrow> string"
  toUpperCase :: "string \<Rightarrow> string"

text \<open>A value interpolated into a template literal.\<close>

definition template :: "host \<Rightarrow> jsval \<Rightarrow> string" where
  "template h v = (case v of JStr s \<Rightarrow> s | _ \<Rightarrow> toString h v)"

text \<open>\<^verbatim>\<open>v.toUpperCase()\<close> on an arbitrary value: only a string has the method.\<close>

fun call_toUpperCase :: "host \<Rightarrow> jsval \<Rightarrow> error + string" where
  "call_toUpperCase h (JStr s) = Inr (toUpperCase h s)"
| "call_toUpperCase h _ = Inl (TypeError ''toUpperCase is not a function'')"

section \<open>Property projection\<close>

definition getNodeProperties :: "node \<Rightarrow> jsobj" where
  "getNodeProperties n =
     (let baseProperties =
            [(''id'', node_get n ''id''),
             (''type'', node_get n ''type''),
             (''name'', node_get n ''name''),
             (''visible'', if in_node ''visible'' n then node_get n ''visible'' else JUndefined),
             (''locked'', if in_node ''locked'' n then node_get n ''locked'' else JUndefined)];
          baseProperties =
            (if in_node ''width'' n \<and> in_node ''height'' n
             then AList.update ''height'' (node_get n ''height'')
                    (AList.update ''width'' (node_get n ''width'') baseProperties)
             else baseProperties);
          baseProperties =
            (if in_node ''x'' n \<and> in_node ''y'' n
             then AList.update ''y'' (node_get n ''y'')
                    (AList.update ''x'' (node_get n ''x'') baseProperties)
             else baseProperties);
          baseProperties =
            (if in_node ''fills'' n
             then AList.update ''fills'' (node_get n ''fills'') baseProperties
             else baseProperties);
          baseProperties =
            (if in_node ''strokes'' n
             then AList.update ''strokeWeight'' (node_get n ''strokeWeight'')
                    (AList.update ''strokes'' (node_get n ''strokes'') baseProperties)
             else baseProperties)
      in baseProperties)"

text \<open>The body of the \<^verbatim>\<open>map\<close> callback of \<^verbatim>\<open>get-selection-details\<close>.\<close>

definition getNodeDetails :: "node \<Rightarrow> jsobj" where
  "getNodeDetails n =
     (let properties = getNodeProperties n;
          properties =
            (case nchildren n of
               Some children \<Rightarrow>
                 AList.update ''children''
                   (JArr (map (\<lambda>child. JObj (getNodeProperties child)) children)) properties
             | None \<Rightarrow> properties);
          properties =
            (if in_node ''constraints'' n
             then AList.update ''constraints'' (node_get n ''constraints'') properties
             else properties);
          properties =
            (if in_node ''layoutMode'' n
             then AList.update ''layout''
                    (JObj [(''layoutMode'', node_get n ''layoutMode''),
                           (''primaryAxisAlignItems'', node_get n ''primaryAxisAlignItems''),
                           (''counterAxisAlignItems'', node_get n ''counterAxisAlignItems''),
                           (''paddingLeft'', node_get n ''paddingLeft''),
                           (''paddingRight'', node_get n ''paddingRight''),
                           (''paddingTop'', node_get n ''paddingTop''),
                           (''paddingBottom'', node_get n ''paddingBottom''),
                           (''itemSpacing'', node_get n ''itemSpacing'')])
                    properties
             else properties)
      in properties)"

section \<open>Colour styles\<close>

text \<open>
  \<^verbatim>\<open>createOrUpdateColorStyle\<close>. \<^verbatim>\<open>find\<close> returns the first style whose name is the given
  one, and the assignment to its \<^verbatim>\<open>paints\<close> changes that style in the document. A style
  made by \<^verbatim>\<open>createPaintStyle\<close> joins the local paint styles; the model puts it last.
\<close>

fun update_first :: "('a \<Rightarrow> bool) \<Rightarrow> ('a \<Rightarrow> 'a) \<Rightarrow> 'a list \<Rightarrow> 'a list" where
  "update_first P f [] = []"
| "update_first P f (x # xs) = (if P x then f x # xs else x # update_first P f xs)"

definition createOrUpdateColorStyle :: "host \<Rightarrow> figma \<Rightarrow> jsval \<Rightarrow> jsval \<Rightarrow> paintStyle \<times> figma" where
  "createOrUpdateColorStyle h fg name color =
     (let existingStyles = localPaintStyles fg;
          solid = [JObj [(''type'', JStr ''SOLID''), (''color'', color)]]
      in case find (\<lambda>style. strict_eq (style_name style) name) existingStyles of
           Some existingStyle \<Rightarrow>
             (existingStyle\<lparr>style_paints := solid\<rparr>,
              fg\<lparr>localPaintStyles :=
                    update_first (\<lambda>style. strict_eq (style_name style) name)
                      (\<lambda>style. style\<lparr>style_paints := solid\<rparr>) existingStyles\<rparr>)
         | None \<Rightarrow>
             (let newStyle = (createPaintStyle h fg)\<lparr>style_name := name, style_paints := solid\<rparr>
              in (newStyle, fg\<lparr>localPaintStyles := existingStyles @ [newStyle]\<rparr>)))"

definition extractPaintStyleInfo :: "paintStyle \<Rightarrow> jsobj" where
  "extractPaintStyleInfo style =
     [(''id'', JStr (style_id style)),
      (''name'', style_name style),
      (''description'', JStr (style_description style)),
      (''paints'', JArr (style_paints style))]"

text \<open>
  \<^verbatim>\<open>applyFillColorStyle\<close> and \<^verbatim>\<open>applyStrokeColorStyle\<close>, which differ only in the property
  they assign.
\<close>

definition applyColorStyle :: "string \<Rightarrow> host \<Rightarrow> figma \<Rightarrow> node \<Rightarrow> jsval \<Rightarrow> error + node" where
  "applyColorStyle prop h fg n styleId =
     (case getStyleById h fg styleId of
        None \<Rightarrow> Inl (Error (''Color style with ID '' @ template h styleId @ '' not found.''))
      | Some style \<Rightarrow>
          if length (style_paints style) = 0
          then Inl (Error (''Color style '' @ template h (style_name style) @ '' has no paints defined.''))
          else Inr (node_set n prop (JArr (style_paints style))))"

definition applyFillColorStyle :: "host \<Rightarrow> figma \<Rightarrow> node \<Rightarrow> jsval \<Rightarrow> error + node" where
  "applyFillColorStyle = applyColorStyle ''fills''"

definition applyStrokeColorStyle :: "host \<Rightarrow> figma \<Rightarrow> node \<Rightarrow> jsval \<Rightarrow> error + node" where
  "applyStrokeColorStyle = applyColorStyle ''strokes''"

section \<open>Export\<close>

definition exportableNodeTypes :: "string list" where
  "exportableNodeTypes =
     [''BOOLEAN_OPERATION'', ''CODE_BLOCK'', ''COMPONENT'', ''COMPONENT_SET'', ''CONNECTOR'',
      ''ELLIPSE'', ''EMBED'', ''FRAME'', ''GROUP'', ''HIGHLIGHT'', ''INSTANCE'', ''LINE'',
      ''LINK_UNFURL'', ''MEDIA'', ''PAGE'', ''POLYGON'', ''RECTANGLE'', ''SECTION'',
      ''SHAPE_WITH_TEXT'', ''SLICE'', ''STAMP'', ''STAR'', ''STICKY'', ''TABLE'', ''TEXT'',
      ''VECTOR'', ''WASHI_TAPE'', ''WIDGET'']"

definition isExportable :: "node \<Rightarrow> bool" where
  "isExportable n =
     (case node_get n ''type'' of JStr t \<Rightarrow> t \<in> set exportableNodeTypes | _ \<Rightarrow> False)"

text \<open>The inner \<^verbatim>\<open>switch (format.toUpperCase())\<close> of \<^verbatim>\<open>export-selection\<close>.\<close>

definition exportSettings :: "host \<Rightarrow> jsval \<Rightarrow> jsval \<Rightarrow> error + jsobj" where
  "exportSettings h format exportScale =
     (case call_toUpperCase h format of
        Inl e \<Rightarrow> Inl e
      | Inr u \<Rightarrow>
          if u = ''PNG'' then
            Inr [(''format'', JStr ''PNG''),
                 (''constraint'', JObj [(''type'', JStr ''SCALE''), (''value'', exportScale)])]
          else if u = ''JPG'' then
            Inr [(''format'', JStr ''JPG''),
                 (''constraint'', JObj [(''type'', JStr ''SCALE''), (''value'', exportScale)])]
          else if u = ''SVG'' then Inr [(''format'', JStr ''SVG'')]
          else if u = ''PDF'' then Inr [(''format'', JStr ''PDF'')]
          else Inl (Error (''Unsupported export format: '' @ template h format)))"

definition exportSelection :: "host \<Rightarrow> figma \<Rightarrow> jsobj \<Rightarrow> (error + jsval) \<times> figma" where
  "exportSelection h fg params =
     (if length (selection fg) = 0 then (Inl (Error ''Please select a node to export.''), fg)
      else
        let selectedNode = selection fg ! 0;
            format = lookup params ''format'';
            scale = lookup params ''scale''
        in if \<not> truthy format then (Inl (Error ''Format is required for exporting.''), fg)
           else if \<not> isExportable selectedNode then
             (Inl (Error (''Node type '' @ template h (node_get selectedNode ''type'')
                          @ '' is not exportable.'')), fg)
           else
             let exportScale = js_or scale (JNum 1)
             in case exportSettings h format exportScale of
                  Inl e \<Rightarrow> (Inl e, fg)
                | Inr settings \<Rightarrow>
                    (let fg' = fg\<lparr>exported := exported fg @ [(selectedNode, settings)]\<rparr>
                     in case exportAsync h selectedNode settings of
                          Inl e \<Rightarrow> (Inl e, fg')
                        | Inr exportedData \<Rightarrow>
                            (Inr (JObj [(''data'', exportedData),
                                        (''format'', format),
                                        (''scale'', exportScale)]), fg')))"

section \<open>The command handlers\<close>

text \<open>
  A handler takes the parameter bag and the host state and returns the value it assigns
  to \<^verbatim>\<open>result\<close> or the error it throws, with the host state it leaves behind: what a
  handler changed before it threw stays changed.
\<close>

type_synonym outcome = "(error + jsval) \<times> figma"

definition getSelection :: "figma \<Rightarrow> outcome" where
  "getSelection fg = (Inr (JArr (map (\<lambda>n. JObj (getNodeProperties n)) (selection fg))), fg)"

definition getSelectionDetails :: "figma \<Rightarrow> outcome" where
  "getSelectionDetails fg = (Inr (JArr (map (\<lambda>n. JObj (getNodeDetails n)) (selection fg))), fg)"

definition createRectangleCmd :: "host \<Rightarrow> figma \<Rightarrow> jsobj \<Rightarrow> outcome" where
  "createRectangleCmd h fg params =
     (let rect = createRectangle h fg;
          rect = node_set rect ''x'' (js_or (lookup params ''x'') (JNum (center_x fg)));
          rect = node_set rect ''y'' (js_or (lookup params ''y'') (JNum (center_y fg)));
          (cx, cy, z) = scrollAndZoomIntoView h [rect] fg;
          fg = fg\<lparr>center_x := cx, center_y := cy, zoom := z\<rparr>;
          fg = fg\<lparr>selection := [rect]\<rparr>
      in (Inr (JObj [(''id'', node_get rect ''id'')]), fg))"

definition createTextCmd :: "host \<Rightarrow> figma \<Rightarrow> jsobj \<Rightarrow> outcome" where
  "createTextCmd h fg params =
     (let text = createText h fg;
          text = node_set text ''x'' (js_or (lookup params ''x'') (JNum (center_x fg)));
          text = node_set text ''y'' (js_or (lookup params ''y'') (JNum (center_y fg)));
          text = node_set text ''characters'' (js_or (lookup params ''text'') (JStr ''Hello World''));
          (cx, cy, z) = scrollAndZoomIntoView h [text] fg;
          fg = fg\<lparr>center_x := cx, center_y := cy, zoom := z\<rparr>;
          fg = fg\<lparr>selection := [text]\<rparr>
      in (Inr (JObj [(''id'', node_get text ''id'')]), fg))"

definition getColorStyles :: "figma \<Rightarrow> outcome" where
  "getColorStyles fg =
     (Inr (JArr (map (\<lambda>style. JObj (extractPaintStyleInfo style)) (localPaintStyles fg))), fg)"

definition createColorStyle :: "host \<Rightarrow> figma \<Rightarrow> jsobj \<Rightarrow> outcome" where
  "createColorStyle h fg params =
     (let name = lookup params ''name''; color = lookup params ''color''
      in if \<not> truthy name \<or> \<not> truthy color
         then (Inl (Error ''Name and color are required.''), fg)
         else let (style, fg') = createOrUpdateColorStyle h fg name color
              in (Inr (JObj [(''styleId'', JStr (style_id style))]), fg'))"

text \<open>
  \<^verbatim>\<open>set-fill-color\<close> and \<^verbatim>\<open>set-stroke-color\<close> are one body up to the property
  (\<^verbatim>\<open>fills\<close>, \<^verbatim>\<open>strokes\<close>) and the noun of their messages (\<^verbatim>\<open>fill\<close>, \<^verbatim>\<open>stroke\<close>;
  \<^verbatim>\<open>Fill\<close>, \<^verbatim>\<open>Stroke\<close>). \<open>quoted\<close> puts a word between single quotes.
\<close>

definition quoted :: "string \<Rightarrow> string" where
  "quoted s = [CHR 0x27] @ s @ [CHR 0x27]"

definition setPaintCmd :: "string \<Rightarrow> string \<Rightarrow> string \<Rightarrow> host \<Rightarrow> figma \<Rightarrow> jsobj \<Rightarrow> outcome" where
  "setPaintCmd prop noun Noun h fg params =
     (if length (selection fg) = 0
      then (Inl (Error (''Please select a node to set '' @ noun @ '' color.'')), fg)
      else
        let n = selection fg ! 0;
            v = lookup params ''value'';
            styleId = lookup params ''styleId'';
            finish = (\<lambda>r. case r of
                      Inl e \<Rightarrow> (Inl e, fg)
                    | Inr n' \<Rightarrow> (Inr (JObj [(''status'', JStr (Noun @ '' color set successfully.''))]),
                                 fg\<lparr>selection := (selection fg)[0 := n']\<rparr>))
        in if truthy styleId then finish (applyColorStyle prop h fg n styleId)
           else if truthy v then
             (case get_prop v ''type'' of
                Inl e \<Rightarrow> (Inl e, fg)
              | Inr t \<Rightarrow>
                  if strict_eq t (JStr ''SOLID'') then
                    (case get_prop v ''color'' of
                       Inl e \<Rightarrow> (Inl e, fg)
                     | Inr c \<Rightarrow> finish (setColor prop n c))
                  else
                    (case call_startsWith t ''GRADIENT'' of
                       Inl e \<Rightarrow> (Inl e, fg)
                     | Inr True \<Rightarrow> finish (setGradient prop n v)
                     | Inr False \<Rightarrow>
                         (Inl (Error (''Unsupported paint type for '' @ prop @ '': '' @ template h t)), fg)))
           else (Inl (Error (''Either '' @ quoted ''value'' @ '' (color/gradient) or '' @ quoted ''styleId''
                             @ '' is required for setting '' @ noun @ '' color.'')), fg))"

definition setFillColorCmd :: "host \<Rightarrow> figma \<Rightarrow> jsobj \<Rightarrow> outcome" where
  "setFillColorCmd = setPaintCmd ''fills'' ''fill'' ''Fill''"

definition setStrokeColorCmd :: "host \<Rightarrow> figma \<Rightarrow> jsobj \<Rightarrow> outcome" where
  "setStrokeColorCmd = setPaintCmd ''strokes'' ''stroke'' ''Stroke''"

definition setStrokeWeightCmd :: "figma \<Rightarrow> jsobj \<Rightarrow> outcome" where
  "setStrokeWeightCmd fg params =
     (if length (selection fg) = 0
      then (Inl (Error ''Please select a node to set stroke weight.''), fg)
      else
        let n = selection fg ! 0; strokeWeightValue = lookup params ''value''
        in case strokeWeightValue of
             JNum w \<Rightarrow>
               (Inr (JObj [(''status'', JStr ''Stroke weight set successfully.'')]),
                fg\<lparr>selection := (selection fg)[0 := setStrokeWeight n strokeWeightValue]\<rparr>)
           | _ \<Rightarrow>
               (Inl (Error (quoted ''value''
                            @ '' is required and must be a number for setting stroke weight.'')), fg))"

definition setEffectCmd :: "figma \<Rightarrow> jsobj \<Rightarrow> outcome" where
  "setEffectCmd fg params =
     (if length (selection fg) = 0
      then (Inl (Error ''Please select a node to set effect.''), fg)
      else
        let n = selection fg ! 0; effectValue = lookup params ''value''
        in if \<not> truthy effectValue
           then (Inl (Error (quoted ''value''
                             @ '' (effect object) is required for setting an effect.'')), fg)
           else case setEffect n effectValue of
                  Inl e \<Rightarrow> (Inl e, fg)
                | Inr n' \<Rightarrow>
                    (Inr (JObj [(''status'', JStr ''Effect set successfully.'')]),
                     fg\<lparr>selection := (selection fg)[0 := n']\<rparr>))"

definition figmaPing :: "host \<Rightarrow> figma \<Rightarrow> jsobj \<Rightarrow> outcome" where
  "figmaPing h fg params =
     (Inr (JObj
        [(''status'', JStr ''ok''),
         (''timestamp'', JStr (toISOString h)),
         (''received_message'', lookup params ''message''),
         (''received_timestamp'', lookup params ''timestamp''),
         (''plugin_info'', JObj
            [(''version'', JStr ''1.0.0''),
             (''viewport'', JObj
                [(''zoom'', JNum (zoom fg)),
                 (''center'', JObj [(''x'', JNum (center_x fg)), (''y'', JNum (center_y fg))])]),
             (''current_page'', JObj
                [(''id'', JStr (page_id fg)),
                 (''name'', JStr (page_name fg)),
                 (''selection_count'', JNum (of_nat (length (selection fg))))])])]), fg)"

section \<open>The catalog of \<^verbatim>\<open>list-functions\<close>\<close>

text \<open>
  The three shapes the literal of the source repeats: a described property
  \<^verbatim>\<open>{ type, description }\<close>, a schema \<^verbatim>\<open>{ type: "object", properties, required }\<close>
  and an entry \<^verbatim>\<open>{ name, description, inputSchema }\<close>.
\<close>

definition described :: "string \<Rightarrow> string \<Rightarrow> jsval" where
  "described t d = JObj [(''type'', JStr t), (''description'', JStr d)]"

definition inputSchema :: "jsobj \<Rightarrow> string list \<Rightarrow> jsval" where
  "inputSchema properties required =
     JObj [(''type'', JStr ''object''),
           (''properties'', JObj properties),
           (''required'', JArr (map JStr required))]"

definition entry :: "string \<Rightarrow> string \<Rightarrow> jsval \<Rightarrow> jsval" where
  "entry name description schema =
     JObj [(''name'', JStr name), (''description'', JStr description), (''inputSchema'', schema)]"

definition catalog :: "jsval list" where
  "catalog =
     [entry ''get.selection'' ''Get information about the currently selected nodes''
        (inputSchema [] []),
      entry ''get.selection.details''
        ''Get detailed information about selected nodes including children, constraints, and layout properties''
        (inputSchema [] []),
      entry ''create.rectangle'' ''Create a rectangle in Figma''
        (inputSchema
           [(''x'', described ''number'' ''X coordinate of the rectangle''),
            (''y'', described ''number'' ''Y coordinate of the rectangle'')] []),
      entry ''create.text'' ''Create a text element in Figma''
        (inputSchema
           [(''x'', described ''number'' ''X coordinate of the text''),
            (''y'', described ''number'' ''Y coordinate of the text''),
            (''text'', described ''string'' ''Text content'')] []),
      entry ''get.color.styles'' ''Get a list of all color styles in the document''
        (inputSchema [] []),
      entry ''create.color.style'' ''Create or update a color style''
        (inputSchema
           [(''name'', described ''string'' ''Name of the color style''),
            (''color'', JObj
               [(''type'', JStr ''object''),
                (''description'', JStr ''RGB color object''),
                (''properties'', JObj
                   [(''r'', JObj [(''type'', JStr ''number'')]),
                    (''g'', JObj [(''type'', JStr ''number'')]),
                    (''b'', JObj [(''type'', JStr ''number'')])]),
                (''required'', JArr [JStr ''r'', JStr ''g'', JStr ''b''])])]
           [''name'', ''color'']),
      entry ''export.selection'' ''Export the currently selected node''
        (inputSchema
           [(''format'', described ''string'' ''Export format (PNG, JPG, SVG, PDF)''),
            (''scale'', described ''number'' ''Export scale (optional, default 1)'')]
           [''format'']),
      entry ''set.fill.color'' ''Set fill color or gradient for the selected node''
        (inputSchema
           [(''value'', described ''object'' ''Color or gradient object''),
            (''styleId'', described ''string'' ''ID of the color style to apply (optional)'')] []),
      entry ''set.stroke.color'' ''Set stroke color or gradient for the selected node''
        (inputSchema
           [(''value'', described ''object'' ''Color or gradient object''),
            (''styleId'', described ''string'' ''ID of the color style to apply (optional)'')] []),
      entry ''set.stroke.weight'' ''Set stroke weight for the selected node''
        (inputSchema [(''value'', described ''number'' ''Stroke weight number'')] [''value'']),
      entry ''set.effect'' ''Set effect for the selected node''
        (inputSchema [(''value'', described ''object'' ''Effect object'')] [''value'']),
      entry ''figma.ping'' ''Ping the Figma plugin to check its status''
        (inputSchema
           [(''message'', described ''string'' ''Message to send with the ping''),
            (''timestamp'', described ''string'' ''Timestamp of the ping'')] [])]"

definition listFunctions :: "figma \<Rightarrow> outcome" where
  "listFunctions fg = (Inr (JObj [(''functions'', JArr catalog)]), fg)"

section \<open>The dispatcher\<close>

text \<open>
  \<^verbatim>\<open>interface CommandMessage { id: string; method: string; [key: string]: any }\<close>, after
  the destructuring \<^verbatim>\<open>const { method, id, ...params } = msg\<close>: \<open>msg_params\<close> holds the
  remaining properties.
\<close>

record commandMessage =
  msg_id :: string
  msg_method :: string
  msg_params :: jsobj

text \<open>
  The \<^verbatim>\<open>switch (method)\<close>. The case labels are compared with \<^verbatim>\<open>===\<close> in their order;
  the second label \<^verbatim>\<open>'get-selection'\<close> of the source (between \<^verbatim>\<open>create-text\<close> and
  \<^verbatim>\<open>get-color-styles\<close>) can never be reached and is left out.
\<close>

definition dispatch :: "host \<Rightarrow> figma \<Rightarrow> string \<Rightarrow> jsobj \<Rightarrow> outcome" where
  "dispatch h fg method params =
     (if method = ''get-selection'' then getSelection fg
      else if method = ''get-selection-details'' then getSelectionDetails fg
      else if method = ''create-rectangle'' then createRectangleCmd h fg params
      else if method = ''create-text'' then createTextCmd h fg params
      else if method = ''get-color-styles'' then getColorStyles fg
      else if method = ''create-color-style'' then createColorStyle h fg params
      else if method = ''export-selection'' then exportSelection h fg params
      else if method = ''set-fill-color'' then setFillColorCmd h fg params
      else if method = ''set-stroke-color'' then setStrokeColorCmd h fg params
      else if method = ''set-stroke-weight'' then setStrokeWeightCmd fg params
      else if method = ''set-effect'' then setEffectCmd fg params
      else if method = ''figma-ping'' then figmaPing h fg params
      else if method = ''list-functions'' then listFunctions fg
      else (Inl (Error (''Unknown command: '' @ method)), fg))"

text \<open>The case labels of the switch, in the order of the source.\<close>

definition commands :: "string list" where
  "commands =
     [''get-selection'', ''get-selection-details'', ''create-rectangle'', ''create-text'',
      ''get-color-styles'', ''create-color-style'', ''export-selection'', ''set-fill-color'',
      ''set-stroke-color'', ''set-stroke-weight'', ''set-effect'', ''figma-ping'',
      ''list-functions'']"

definition postMessage :: "figma \<Rightarrow> jsobj \<Rightarrow> figma" where
  "postMessage fg m = fg\<lparr>posted := posted fg @ [m]\<rparr>"

text \<open>
  \<^verbatim>\<open>figma.ui.onmessage\<close>: the \<^verbatim>\<open>try\<close> block runs the switch and posts \<^verbatim>\<open>{ id, result }\<close>;
  the \<^verbatim>\<open>catch\<close> block posts \<^verbatim>\<open>{ id, error: { message } }\<close>. Every thrown value is an
  \<^verbatim>\<open>Error\<close>, so the message is its \<^verbatim>\<open>message\<close>. \<^verbatim>\<open>postMessage\<close> itself is taken
  not to throw. The calls of \<^verbatim>\<open>console\<close> leave no trace in the host state.
\<close>

definition figma_ui_onmessage :: "host \<Rightarrow> figma \<Rightarrow> commandMessage \<Rightarrow> figma" where
  "figma_ui_onmessage h fg msg =
     (case dispatch h fg (msg_method msg) (msg_params msg) of
        (Inr result, fg') \<Rightarrow>
          postMessage fg' [(''id'', JStr (msg_id msg)), (''result'', result)]
      | (Inl e, fg') \<Rightarrow>
          postMessage fg' [(''id'', JStr (msg_id msg)),
                           (''error'', JObj [(''message'', JStr (message e))])])"

text \<open>
  A property counts as carried by a posted message when it is there with a value other
  than \<^verbatim>\<open>undefined\<close>: \<^verbatim>\<open>JSON.stringify\<close>, which the UI applies to every message it
  relays, omits a property whose value is \<^verbatim>\<open>undefined\<close>.
\<close>

definition carries :: "jsobj \<Rightarrow> string \<Rightarrow> bool" where
  "carries m k = (case map_of m k of None \<Rightarrow> False | Some v \<Rightarrow> v \<noteq> JUndefined)"

section \<open>The transport of the UI page\<close>

text \<open>
  The script of \<^verbatim>\<open>ui.html\<close> holds one variable \<^verbatim>\<open>ws\<close>, the socket made by the latest
  call of \<^verbatim>\<open>connect\<close>. The state keeps every socket made so far with its
  \<^verbatim>\<open>readyState\<close>, oldest first, so \<^verbatim>\<open>ws\<close> is the last one; the timers set with
  \<^verbatim>\<open>setTimeout\<close> and not yet fired, by their delay in milliseconds; the status element;
  the messages handed to \<^verbatim>\<open>parent.postMessage\<close>; the strings accepted by
  \<^verbatim>\<open>ws.send\<close>; and the lines written to the console.
\<close>

datatype readyState = CONNECTING | OPEN | CLOSING | CLOSED

record ui =
  sockets :: "readyState list"
  timers :: "nat list"
  status_textContent :: string
  status_className :: string
  to_parent :: "jsval list"
  sent :: "string list"
  console :: "string list"

record closeEvent =
  wasClean :: bool
  code :: nat
  reason :: string

text \<open>Decimal digits of a natural number, for \<^verbatim>\<open>code=${event.code}\<close>.\<close>

fun decimal :: "nat \<Rightarrow> string" where
  "decimal n =
     (if n < 10 then [char_of (48 + n)] else decimal (n div 10) @ [char_of (48 + n mod 10)])"

declare decimal.simps [simp del]

definition connect :: "ui \<Rightarrow> ui" where
  "connect s = s\<lparr>sockets := sockets s @ [CONNECTING]\<rparr>"

definition ws_onopen :: "ui \<Rightarrow> ui" where
  "ws_onopen s =
     s\<lparr>status_textContent := ''Connected to MCP server'', status_className := ''connected''\<rparr>"

definition ws_onclose :: "ui \<Rightarrow> closeEvent \<Rightarrow> ui" where
  "ws_onclose s event =
     (let s = (if wasClean event
               then s\<lparr>status_textContent :=
                        ''Connection closed cleanly, code='' @ decimal (code event)
                        @ '' reason='' @ reason event\<rparr>
               else s\<lparr>status_textContent := ''Disconnected from MCP server''\<rparr>);
          s = s\<lparr>status_className := ''disconnected''\<rparr>;
          s = s\<lparr>console := console s
                  @ [''Socket is closed. Reconnect will be attempted in 3 seconds.'']\<rparr>
      in s\<lparr>timers := timers s @ [3000]\<rparr>)"

text \<open>
  \<^verbatim>\<open>ws.close()\<close> on the current socket: a socket that is connecting or open starts
  closing, and its close event follows later; on a closing or closed socket the call
  does nothing.
\<close>

definition ws_close :: "ui \<Rightarrow> ui" where
  "ws_close s =
     (if sockets s = [] then s
      else if last (sockets s) = CONNECTING \<or> last (sockets s) = OPEN
      then s\<lparr>sockets := butlast (sockets s) @ [CLOSING]\<rparr>
      else s)"

definition ws_onerror :: "ui \<Rightarrow> ui" where
  "ws_onerror s =
     ws_close (s\<lparr>console := console s @ [''Socket encountered error: '']\<rparr>)"

text \<open>
  \<^verbatim>\<open>ws.onmessage\<close>. \<^verbatim>\<open>JSON.parse\<close> is a parameter: \<open>None\<close> is the thrown
  \<^verbatim>\<open>SyntaxError\<close>, which the \<^verbatim>\<open>catch\<close> block logs.
\<close>

definition ws_onmessage :: "(string \<Rightarrow> jsval option) \<Rightarrow> ui \<Rightarrow> string \<Rightarrow> ui" where
  "ws_onmessage parse s data =
     (case parse data of
        Some parsed \<Rightarrow> s\<lparr>to_parent := to_parent s @ [JObj [(''pluginMessage'', parsed)]]\<rparr>
      | None \<Rightarrow> s\<lparr>console := console s @ [''Failed to parse message:'']\<rparr>)"

text \<open>
  \<^verbatim>\<open>ws.send(text)\<close> on the current socket: it throws while the socket is connecting,
  transmits while it is open, and discards the text otherwise.
\<close>

definition ws_send :: "ui \<Rightarrow> string \<Rightarrow> error + ui" where
  "ws_send s text =
     (if sockets s = [] then Inl (TypeError ''Cannot read properties of undefined (reading send)'')
      else case last (sockets s) of
             CONNECTING \<Rightarrow> Inl (Error ''InvalidStateError'')
           | OPEN \<Rightarrow> Inr (s\<lparr>sent := sent s @ [text]\<rparr>)
           | _ \<Rightarrow> Inr s)"

text \<open>
  \<^verbatim>\<open>window.onmessage\<close>, given \<^verbatim>\<open>event.data\<close>. \<^verbatim>\<open>JSON.stringify\<close> is a parameter. The
  handler catches nothing: \<open>Inl\<close> is an exception that leaves it, with the state as it
  was.
\<close>

definition window_onmessage :: "(jsval \<Rightarrow> string) \<Rightarrow> ui \<Rightarrow> jsval \<Rightarrow> error + ui" where
  "window_onmessage stringify s data =
     (case get_prop data ''pluginMessage'' of
        Inl e \<Rightarrow> Inl e
      | Inr pluginMessage \<Rightarrow>
          if truthy pluginMessage then ws_send s (stringify pluginMessage) else Inr s)"

text \<open>The page as loaded: the status element of the markup, then \<^verbatim>\<open>connect()\<close>.\<close>

definition loaded :: ui where
  "loaded =
     connect \<lparr>sockets = [], timers = [],
              status_textContent = ''Connecting to MCP server...'',
              status_className = ''disconnected'',
              to_parent = [], sent = [], console = []\<rparr>"

text \<open>
  The events the browser delivers. A socket gets \<^verbatim>\<open>open\<close> while it is connecting,
  \<^verbatim>\<open>message\<close> while it is open, \<^verbatim>\<open>error\<close> and \<^verbatim>\<open>close\<close> while it is not yet closed, and
  its \<^verbatim>\<open>close\<close> event is what closes it, so it gets one \<^verbatim>\<open>close\<close> at most; a pending
  timer may fire and calls \<^verbatim>\<open>connect\<close>; a window message may arrive at any time.
\<close>

inductive step :: "(string \<Rightarrow> jsval option) \<Rightarrow> (jsval \<Rightarrow> string) \<Rightarrow> ui \<Rightarrow> ui \<Rightarrow> bool"
  for parse :: "string \<Rightarrow> jsval option" and stringify :: "jsval \<Rightarrow> string" where
  open_event:
    "i < length (sockets s) \<Longrightarrow> sockets s ! i = CONNECTING \<Longrightarrow>
     step parse stringify s (ws_onopen (s\<lparr>sockets := (sockets s)[i := OPEN]\<rparr>))"
| close_event:
    "i < length (sockets s) \<Longrightarrow> sockets s ! i \<noteq> CLOSED \<Longrightarrow>
     step parse stringify s (ws_onclose (s\<lparr>sockets := (sockets s)[i := CLOSED]\<rparr>) event)"
| error_event:
    "i < length (sockets s) \<Longrightarrow> sockets s ! i \<noteq> CLOSED \<Longrightarrow>
     step parse stringify s (ws_onerror s)"
| message_event:
    "i < length (sockets s) \<Longrightarrow> sockets s ! i = OPEN \<Longrightarrow>
     step parse stringify s (ws_onmessage parse s data)"
| window_message:
    "window_onmessage stringify s v = Inr s' \<Longrightarrow> step parse stringify s s'"
| timer_fires:
    "timers s = d # ds \<Longrightarrow> step parse stringify s (connect (s\<lparr>timers := ds\<rparr>))"

code_pred step .

inductive reachable :: "(string \<Rightarrow> jsval option) \<Rightarrow> (jsval \<Rightarrow> string) \<Rightarrow> ui \<Rightarrow> bool"
  for parse :: "string \<Rightarrow> jsval option" and stringify :: "jsval \<Rightarrow> string" where
  reachable_loaded: "reachable parse stringify loaded"
| reachable_step:
    "reachable parse stringify s \<Longrightarrow> step parse stringify s s' \<Longrightarrow> reachable parse stringify s'"

code_pred reachable .

section \<open>Notions used to state the properties\<close>

text \<open>The \<^verbatim>\<open>type\<close> of a paint object, when it is an object with a string there.\<close>

definition paint_type :: "jsval \<Rightarrow> string option" where
  "paint_type p =
     (case p of
        JObj ps \<Rightarrow> (case lookup ps ''type'' of JStr t \<Rightarrow> Some t | _ \<Rightarrow> None)
      | _ \<Rightarrow> None)"

text \<open>
  The name a method takes in the catalog: every hyphen becomes a dot.
\<close>

definition dotted :: "string \<Rightarrow> string" where
  "dotted m = map (\<lambda>c. if c = CHR ''-'' then CHR ''.'' else c) m"

definition entry_name :: "jsval \<Rightarrow> jsval" where
  "entry_name e = (case e of JObj ps \<Rightarrow> lookup ps ''name'' | _ \<Rightarrow> JUndefined)"

definition is_string :: "jsval \<Rightarrow> bool" where
  "is_string v = (case v of JStr s \<Rightarrow> True | _ \<Rightarrow> False)"

text \<open>A parameter of a schema with its type and its description.\<close>

definition described_property :: "jsval \<Rightarrow> bool" where
  "described_property v =
     (case v of
        JObj ps \<Rightarrow> is_string (lookup ps ''type'') \<and> is_string (lookup ps ''description'')
      | _ \<Rightarrow> False)"

text \<open>
  A catalog entry with a name, a description that is not empty, and an input schema of
  type \<^verbatim>\<open>object\<close> whose parameters are all described and whose list of required fields
  names parameters of the schema.
\<close>

definition complete_entry :: "jsval \<Rightarrow> bool" where
  "complete_entry e =
     (case e of
        JObj ps \<Rightarrow>
          is_string (lookup ps ''name'')
          \<and> (case lookup ps ''description'' of JStr d \<Rightarrow> d \<noteq> [] | _ \<Rightarrow> False)
          \<and> (case lookup ps ''inputSchema'' of
               JObj schema \<Rightarrow>
                 lookup schema ''type'' = JStr ''object''
                 \<and> (case lookup schema ''properties'' of
                      JObj properties \<Rightarrow>
                        list_all (\<lambda>(k, v). described_property v) properties
                        \<and> (case lookup schema ''required'' of
                             JArr required \<Rightarrow>
                               list_all (\<lambda>r. case r of JStr k \<Rightarrow> k \<in> set (map fst properties)
                                                    | _ \<Rightarrow> False) required
                           | _ \<Rightarrow> False)
                    | _ \<Rightarrow> False)
             | _ \<Rightarrow> False)
      | _ \<Rightarrow> False)"

text \<open>The local paint styles that bear a name, as \<^verbatim>\<open>find\<close> compares it.\<close>

definition named :: "jsval \<Rightarrow> paintStyle list \<Rightarrow> paintStyle list" where
  "named name styles = filter (\<lambda>style. strict_eq (style_name style) name) styles"

text \<open>Whether a window message has the wrapper key.\<close>

definition has_key :: "jsval \<Rightarrow> string \<Rightarrow> bool" where
  "has_key v k = (case v of JObj ps \<Rightarrow> map_of ps k \<noteq> None | _ \<Rightarrow> False)"

text \<open>
  At any time the page has either one socket that is not closed, the current one, and no
  timer, or no such socket and the one timer of three seconds.
\<close>

definition single_attempt :: "ui \<Rightarrow> bool" where
  "single_attempt s =
     (sockets s \<noteq> []
      \<and> list_all (\<lambda>x. x = CLOSED) (butlast (sockets s))
      \<and> timers s = (if last (sockets s) = CLOSED then [3000] else []))"

section \<open>A sample document\<close>

text \<open>Concrete hosts, documents and nodes on which the theorems below are instantiated.\<close>

definition red :: jsval where
  "red = JObj [(''r'', JNum 1), (''g'', JNum 0), (''b'', JNum 0)]"

definition blue :: jsval where
  "blue = JObj [(''r'', JNum 0), (''g'', JNum 0), (''b'', JNum 1)]"

definition solid :: "jsval \<Rightarrow> jsval" where
  "solid c = JObj [(''type'', JStr ''SOLID''), (''color'', c)]"

definition linear_gradient :: jsval where
  "linear_gradient = JObj [(''type'', JStr ''GRADIENT_LINEAR''), (''gradientStops'', JArr [])]"

definition image_paint :: jsval where
  "image_paint = JObj [(''type'', JStr ''IMAGE''), (''scaleMode'', JStr ''FILL'')]"

definition rectangle :: node where
  "rectangle =
     Node [(''id'', JStr ''1:2''), (''type'', JStr ''RECTANGLE''), (''name'', JStr ''Rectangle 1''),
           (''visible'', JBool True), (''locked'', JBool False),
           (''width'', JNum 100), (''height'', JNum 100), (''x'', JNum 7), (''y'', JNum 9),
           (''fills'', JArr [solid blue, image_paint]), (''strokes'', JArr [image_paint, solid blue]),
           (''strokeWeight'', JNum 1), (''effects'', JArr []),
           (''constraints'', JObj [(''horizontal'', JStr ''MIN''), (''vertical'', JStr ''MIN'')])]
          None"

definition textNode :: node where
  "textNode =
     Node [(''id'', JStr ''1:3''), (''type'', JStr ''TEXT''), (''name'', JStr ''Text''),
           (''visible'', JBool True), (''locked'', JBool False),
           (''width'', JNum 0), (''height'', JNum 14), (''x'', JNum 0), (''y'', JNum 0),
           (''fills'', JMixed), (''strokes'', JArr []), (''strokeWeight'', JNum 1),
           (''characters'', JStr [])]
          None"

text \<open>A node that exposes nothing but its identity.\<close>

definition bare :: node where
  "bare = Node [(''id'', JStr ''9:9''), (''type'', JStr ''TEXT_PATH''), (''name'', JStr ''Path'')] None"

definition brand :: paintStyle where
  "brand = \<lparr>style_id = ''S:1'', style_name = JStr ''Brand'', style_description = [],
            style_paints = [linear_gradient, solid red]\<rparr>"

text \<open>A style that has lost its paints.\<close>

definition empty_style :: paintStyle where
  "empty_style = \<lparr>style_id = ''S:9'', style_name = JStr ''Empty'', style_description = [],
                  style_paints = []\<rparr>"

text \<open>
  A stand-in for \<^verbatim>\<open>String.prototype.toUpperCase\<close> on strings held as UTF-8 bytes: it
  maps the letters \<^verbatim>\<open>a\<close> to \<^verbatim>\<open>z\<close> to \<^verbatim>\<open>A\<close> to \<^verbatim>\<open>Z\<close> and the long s (U+017F, the
  bytes C5 BF) to \<^verbatim>\<open>S\<close>, as the language does, and keeps every other byte.
\<close>

definition upper_char :: "char \<Rightarrow> char" where
  "upper_char c =
     (let k = (of_char c :: nat)
      in if of_char CHR ''a'' \<le> k \<and> k \<le> of_char CHR ''z'' then char_of (k - 32) else c)"

fun sample_toUpperCase :: "string \<Rightarrow> string" where
  "sample_toUpperCase (c # d # cs) =
     (if c = CHR 0xC5 \<and> d = CHR 0xBF then CHR ''S'' # sample_toUpperCase cs
      else upper_char c # sample_toUpperCase (d # cs))"
| "sample_toUpperCase [c] = [upper_char c]"
| "sample_toUpperCase [] = []"

definition sample_host :: host where
  "sample_host =
     \<lparr>createRectangle = (\<lambda>fg. rectangle),
      createText = (\<lambda>fg. textNode),
      createPaintStyle = (\<lambda>fg. \<lparr>style_id = ''S:'' @ decimal (Suc (length (localPaintStyles fg))),
                                 style_name = JStr ''Paint style'', style_description = [],
                                 style_paints = []\<rparr>),
      scrollAndZoomIntoView = (\<lambda>ns fg. (center_x fg, center_y fg, zoom fg)),
      getStyleById = (\<lambda>fg v. find (\<lambda>style. strict_eq (JStr (style_id style)) v) (localPaintStyles fg)),
      exportAsync = (\<lambda>n settings. Inr (JBytes [137, 80, 78, 71])),
      toISOString = ''2024-01-01T00:00:00.000Z'',
      toString = (\<lambda>v. ''[object Object]''),
      toUpperCase = sample_toUpperCase\<rparr>"

definition document :: "node list \<Rightarrow> paintStyle list \<Rightarrow> figma" where
  "document sel styles =
     \<lparr>selection = sel, localPaintStyles = styles, center_x = 40, center_y = 30, zoom = 1,
      page_id = ''0:1'', page_name = ''Page 1'', posted = [], exported = []\<rparr>"

text \<open>Stand-ins for \<^verbatim>\<open>JSON.parse\<close> and \<^verbatim>\<open>JSON.stringify\<close> on a few inputs.\<close>

definition sample_parse :: "string \<Rightarrow> jsval option" where
  "sample_parse data =
     (if data = ''[]'' then Some (JArr [])
      else if data = ''{}'' then Some (JObj [])
      else if data = ''null'' then Some JNull
      else None)"

definition sample_stringify :: "jsval \<Rightarrow> string" where
  "sample_stringify v =
     (case v of JArr [] \<Rightarrow> ''[]'' | JObj [] \<Rightarrow> ''{}'' | JNull \<Rightarrow> ''null'' | _ \<Rightarrow> ''...'')"

section \<open>Every command is answered once\<close>

lemma getSelection_defined: "getSelection fg = (Inr v, fg') \<Longrightarrow> v \<noteq> JUndefined"
  by (auto simp: getSelection_def)

lemma getSelectionDetails_defined: "getSelectionDetails fg = (Inr v, fg') \<Longrightarrow> v \<noteq> JUndefined"
  by (auto simp: getSelectionDetails_def)

lemma createRectangleCmd_defined: "createRectangleCmd h fg ps = (Inr v, fg') \<Longrightarrow> v \<noteq> JUndefined"
  by (auto simp: createRectangleCmd_def Let_def split: prod.splits)

lemma createTextCmd_defined: "createTextCmd h fg ps = (Inr v, fg') \<Longrightarrow> v \<noteq> JUndefined"
  by (auto simp: createTextCmd_def Let_def split: prod.splits)

lemma getColorStyles_defined: "getColorStyles fg = (Inr v, fg') \<Longrightarrow> v \<noteq> JUndefined"
  by (auto simp: getColorStyles_def)

lemma createColorStyle_defined: "createColorStyle h fg ps = (Inr v, fg') \<Longrightarrow> v \<noteq> JUndefined"
  by (auto simp: createColorStyle_def Let_def split: prod.splits if_splits)

lemma exportSelection_defined: "exportSelection h fg ps = (Inr v, fg') \<Longrightarrow> v \<noteq> JUndefined"
  by (auto simp: exportSelection_def Let_def split: prod.splits if_splits sum.splits)

lemma setPaintCmd_defined: "setPaintCmd p n N h fg ps = (Inr v, fg') \<Longrightarrow> v \<noteq> JUndefined"
  by (auto simp: setPaintCmd_def Let_def split: prod.splits if_splits sum.splits bool.splits)

lemma setStrokeWeightCmd_defined: "setStrokeWeightCmd fg ps = (Inr v, fg') \<Longrightarrow> v \<noteq> JUndefined"
  by (auto simp: setStrokeWeightCmd_def Let_def split: prod.splits if_splits sum.splits jsval.splits)

lemma setEffectCmd_defined: "setEffectCmd fg ps = (Inr v, fg') \<Longrightarrow> v \<noteq> JUndefined"
  by (auto simp: setEffectCmd_def Let_def split: prod.splits if_splits sum.splits)

lemma figmaPing_defined: "figmaPing h fg ps = (Inr v, fg') \<Longrightarrow> v \<noteq> JUndefined"
  by (auto simp: figmaPing_def)

lemma listFunctions_defined: "listFunctions fg = (Inr v, fg') \<Longrightarrow> v \<noteq> JUndefined"
  by (auto simp: listFunctions_def)

lemmas handler_defined =
  getSelection_defined getSelectionDetails_defined createRectangleCmd_defined
  createTextCmd_defined getColorStyles_defined createColorStyle_defined
  exportSelection_defined setPaintCmd_defined setStrokeWeightCmd_defined setEffectCmd_defined
  figmaPing_defined listFunctions_defined

text \<open>No handler leaves \<^verbatim>\<open>result\<close> undefined when it returns.\<close>

lemma dispatch_defined: "dispatch h fg m ps = (Inr v, fg') \<Longrightarrow> v \<noteq> JUndefined"
  unfolding dispatch_def setFillColorCmd_def setStrokeColorCmd_def
  by (auto split: if_splits dest: handler_defined)

lemma createOrUpdateColorStyle_posted:
  "createOrUpdateColorStyle h fg name color = (st, fg') \<Longrightarrow> posted fg' = posted fg"
  by (auto simp: createOrUpdateColorStyle_def Let_def split: option.splits)

lemma getSelection_posted: "posted (snd (getSelection fg)) = posted fg"
  by (simp add: getSelection_def)

lemma getSelectionDetails_posted: "posted (snd (getSelectionDetails fg)) = posted fg"
  by (simp add: getSelectionDetails_def)

lemma createRectangleCmd_posted: "posted (snd (createRectangleCmd h fg ps)) = posted fg"
  by (simp add: createRectangleCmd_def Let_def split: prod.splits)

lemma createTextCmd_posted: "posted (snd (createTextCmd h fg ps)) = posted fg"
  by (simp add: createTextCmd_def Let_def split: prod.splits)

lemma getColorStyles_posted: "posted (snd (getColorStyles fg)) = posted fg"
  by (simp add: getColorStyles_def)

lemma createColorStyle_posted: "posted (snd (createColorStyle h fg ps)) = posted fg"
  by (auto simp: createColorStyle_def Let_def split: prod.splits
      dest: createOrUpdateColorStyle_posted)

lemma exportSelection_posted: "posted (snd (exportSelection h fg ps)) = posted fg"
  by (simp add: exportSelection_def Let_def split: sum.splits)

lemma setPaintCmd_posted: "posted (snd (setPaintCmd p n N h fg ps)) = posted fg"
  by (simp add: setPaintCmd_def Let_def split: sum.splits bool.splits)

lemma setStrokeWeightCmd_posted: "posted (snd (setStrokeWeightCmd fg ps)) = posted fg"
  by (simp add: setStrokeWeightCmd_def Let_def split: jsval.splits)

lemma setEffectCmd_posted: "posted (snd (setEffectCmd fg ps)) = posted fg"
  by (simp add: setEffectCmd_def Let_def split: sum.splits)

lemma figmaPing_posted: "posted (snd (figmaPing h fg ps)) = posted fg"
  by (simp add: figmaPing_def)

lemma listFunctions_posted: "posted (snd (listFunctions fg)) = posted fg"
  by (simp add: listFunctions_def)

text \<open>No handler posts a message itself.\<close>

lemma dispatch_posted: "posted (snd (dispatch h fg m ps)) = posted fg"
  unfolding dispatch_def setFillColorCmd_def setStrokeColorCmd_def
  by (simp add: getSelection_posted getSelectionDetails_posted createRectangleCmd_posted
      createTextCmd_posted getColorStyles_posted createColorStyle_posted
      exportSelection_posted setPaintCmd_posted setStrokeWeightCmd_posted setEffectCmd_posted
      figmaPing_posted listFunctions_posted)

text \<open>
  C1. Handling a command message posts exactly one message \<open>r\<close> to the UI. It carries
  the \<^verbatim>\<open>id\<close> of the command. When the handler returns, \<open>r\<close> is \<^verbatim>\<open>{ id, result }\<close> with a
  result that is not \<^verbatim>\<open>undefined\<close>; when the handler throws, \<open>r\<close> is
  \<^verbatim>\<open>{ id, error: { message } }\<close> with the message of the thrown error. In both cases
  \<open>r\<close> carries exactly one of \<^verbatim>\<open>result\<close> and \<^verbatim>\<open>error\<close>.
\<close>

theorem one_response:
  "\<exists>r. posted (figma_ui_onmessage h fg msg) = posted fg @ [r]
     \<and> map_of r ''id'' = Some (JStr (msg_id msg))
     \<and> (case fst (dispatch h fg (msg_method msg) (msg_params msg)) of
          Inr v \<Rightarrow> v \<noteq> JUndefined \<and> r = [(''id'', JStr (msg_id msg)), (''result'', v)]
        | Inl e \<Rightarrow> r = [(''id'', JStr (msg_id msg)),
                         (''error'', JObj [(''message'', JStr (message e))])])
     \<and> (carries r ''result'' \<noteq> carries r ''error'')"
proof (cases "dispatch h fg (msg_method msg) (msg_params msg)")
  case (Pair out fg')
  have p: "posted fg' = posted fg"
    using dispatch_posted [of h fg "msg_method msg" "msg_params msg"] Pair by simp
  show ?thesis
  proof (cases out)
    case (Inl e)
    with Pair p show ?thesis
      by (simp add: figma_ui_onmessage_def postMessage_def carries_def)
  next
    case (Inr v)
    with Pair have "v \<noteq> JUndefined" by (auto dest: dispatch_defined)
    with Inr Pair p show ?thesis
      by (simp add: figma_ui_onmessage_def postMessage_def carries_def)
  qed
qed

text \<open>
  The theorem at a command whose handler throws: \<^verbatim>\<open>set-fill-color\<close> with nothing
  selected.
\<close>

theorem one_response_witness:
  "posted (figma_ui_onmessage sample_host (document [] [])
            \<lparr>msg_id = ''2'', msg_method = ''set-fill-color'',
             msg_params = [(''value'', solid red)]\<rparr>)
   = [[(''id'', JStr ''2''),
       (''error'', JObj [(''message'', JStr ''Please select a node to set fill color.'')])]]"
  using one_response [of sample_host "document [] []"
      "\<lparr>msg_id = ''2'', msg_method = ''set-fill-color'', msg_params = [(''value'', solid red)]\<rparr>"]
  by (simp add: dispatch_def setFillColorCmd_def setPaintCmd_def document_def)

section \<open>Unknown commands\<close>

text \<open>
  C6. The method is compared for equality with the case labels: whenever it is none of
  them, whatever it starts with or contains, the only effect of the message is the
  posted response \<^verbatim>\<open>{ id, error: { message: "Unknown command: <method>" } }\<close>.
\<close>

theorem unknown_command:
  "method \<notin> set commands \<Longrightarrow>
   figma_ui_onmessage h fg \<lparr>msg_id = i, msg_method = method, msg_params = ps\<rparr>
     = postMessage fg [(''id'', JStr i),
                       (''error'', JObj [(''message'', JStr (''Unknown command: '' @ method))])]"
  by (simp add: figma_ui_onmessage_def dispatch_def commands_def)

text \<open>A proper prefix of a label and a label followed by a wildcard are both unknown.\<close>

theorem unknown_command_witness:
  "''get-selection-'' \<notin> set commands \<and> ''get-*'' \<notin> set commands
   \<and> posted (figma_ui_onmessage sample_host (document [rectangle] [])
               \<lparr>msg_id = ''7'', msg_method = ''get-selection-'', msg_params = []\<rparr>)
     = [[(''id'', JStr ''7''),
         (''error'', JObj [(''message'', JStr ''Unknown command: get-selection-'')])]]
   \<and> posted (figma_ui_onmessage sample_host (document [rectangle] [])
               \<lparr>msg_id = ''8'', msg_method = ''get-*'', msg_params = []\<rparr>)
     = [[(''id'', JStr ''8''), (''error'', JObj [(''message'', JStr ''Unknown command: get-*'')])]]"
proof -
  have a: "''get-selection-'' \<notin> set commands" by (simp add: commands_def)
  have b: "''get-*'' \<notin> set commands" by (simp add: commands_def)
  show ?thesis
    using a b unknown_command [OF a, of sample_host "document [rectangle] []" "''7''" "[]"]
      unknown_command [OF b, of sample_host "document [rectangle] []" "''8''" "[]"]
    by (simp add: postMessage_def document_def)
qed

section \<open>Paint lists\<close>

lemma node_get_node_set: "node_get (node_set n k v) k' = (if k' = k then v else node_get n k')"
  by (simp add: node_get_def node_set_def lookup_def update_conv')

lemma paint_type_get_prop: "paint_type p = Some t \<Longrightarrow> get_prop p ''type'' = Inr (JStr t)"
  by (auto simp: paint_type_def split: jsval.splits)

text \<open>
  A node whose property is no array, as the fills of a text node with
  \<^verbatim>\<open>figma.mixed\<close>, has no paint list to keep: the new paint becomes the whole list.
\<close>

lemma mixed_paints:
  assumes "\<forall>ps. node_get n prop \<noteq> JArr ps"
  shows "\<exists>n'. setColor prop n color = Inr n'
           \<and> node_get n' prop = JArr [JObj [(''type'', JStr ''SOLID''), (''color'', color)]]"
    and "\<exists>n'. setGradient prop n gradient = Inr n' \<and> node_get n' prop = JArr [gradient]"
  using assms
  by (auto simp: setColor_def setGradient_def array_or_empty_def node_get_node_set
      split: jsval.splits)

text \<open>
  How \<^verbatim>\<open>set-fill-color\<close> and \<^verbatim>\<open>set-stroke-color\<close> reach the helpers, on the first
  selected node: a \<^verbatim>\<open>styleId\<close> applies the style; otherwise a value of type
  \<^verbatim>\<open>SOLID\<close> sets its colour and a value whose type starts with \<^verbatim>\<open>GRADIENT\<close> is set as
  it is.
\<close>

lemma setPaintCmd_routes:
  assumes "selection fg = n # rest"
  shows "truthy (lookup params ''styleId'') \<Longrightarrow>
           applyColorStyle prop h fg n (lookup params ''styleId'') = Inr n' \<Longrightarrow>
           setPaintCmd prop noun Noun h fg params
             = (Inr (JObj [(''status'', JStr (Noun @ '' color set successfully.''))]),
                fg\<lparr>selection := n' # rest\<rparr>)"
    and "\<not> truthy (lookup params ''styleId'') \<Longrightarrow>
           lookup params ''value'' = JObj v \<Longrightarrow> lookup v ''type'' = JStr ''SOLID'' \<Longrightarrow>
           setColor prop n (lookup v ''color'') = Inr n' \<Longrightarrow>
           setPaintCmd prop noun Noun h fg params
             = (Inr (JObj [(''status'', JStr (Noun @ '' color set successfully.''))]),
                fg\<lparr>selection := n' # rest\<rparr>)"
    and "\<not> truthy (lookup params ''styleId'') \<Longrightarrow>
           lookup params ''value'' = JObj v \<Longrightarrow> lookup v ''type'' = JStr t \<Longrightarrow>
           t \<noteq> ''SOLID'' \<Longrightarrow> startsWith t ''GRADIENT'' \<Longrightarrow>
           setGradient prop n (JObj v) = Inr n' \<Longrightarrow>
           setPaintCmd prop noun Noun h fg params
             = (Inr (JObj [(''status'', JStr (Noun @ '' color set successfully.''))]),
                fg\<lparr>selection := n' # rest\<rparr>)"
  using assms by (simp_all add: setPaintCmd_def)

text \<open>
  The claim C2 has a named style replace the node's paint list with the style's. A
  style without paints is not applied: \<^verbatim>\<open>applyFillColorStyle\<close> throws on it before the
  assignment, the command fails, and the node keeps the list it had.
\<close>

theorem empty_style_counterexample:
  "getStyleById sample_host (document [rectangle] [empty_style]) (JStr ''S:9'') = Some empty_style
   \<and> style_paints empty_style = []
   \<and> node_get rectangle ''fills'' = JArr [solid blue, image_paint]
   \<and> applyFillColorStyle sample_host (document [rectangle] [empty_style]) rectangle (JStr ''S:9'')
       = Inl (Error ''Color style Empty has no paints defined.'')
   \<and> setFillColorCmd sample_host (document [rectangle] [empty_style]) [(''styleId'', JStr ''S:9'')]
       = (Inl (Error ''Color style Empty has no paints defined.''), document [rectangle] [empty_style])"
  by (simp add: sample_host_def document_def empty_style_def applyFillColorStyle_def
      applyColorStyle_def template_def setFillColorCmd_def setPaintCmd_def lookup_def
      node_get_def rectangle_def)

text \<open>
  C2, amended. Let \<open>paints\<close> be the paint list of a node under \<open>prop\<close> (\<^verbatim>\<open>fills\<close> or
  \<^verbatim>\<open>strokes\<close>), every entry a paint object with a string \<^verbatim>\<open>type\<close>.
  Applying a style that is found and has at least one paint makes the style's paint list
  the node's list, whatever \<open>paints\<close> was. A style that is found and has no paints, and
  a style id with no style, make the helper throw; the command then fails and leaves the
  host, and so the node's list, as it was. Setting a solid colour replaces the first
  entry when its type is \<^verbatim>\<open>SOLID\<close>; setting a gradient replaces the first entry when its
  type starts with \<^verbatim>\<open>GRADIENT\<close>; otherwise (an empty list, or another first entry) the
  new paint is put in front of the whole old list. The entries behind the first are kept
  in every case, and no other property of the node changes. The lists are read from the
  node that the helper returns.
\<close>

theorem paint_replacement:
  assumes paints: "node_get n prop = JArr paints"
    and wf: "\<forall>p \<in> set paints. paint_type p \<noteq> None"
  shows "(getStyleById h fg styleId = Some style \<and> style_paints style \<noteq> [] \<longrightarrow>
            (\<exists>n'. applyColorStyle prop h fg n styleId = Inr n'
                \<and> node_get n' prop = JArr (style_paints style)
                \<and> (\<forall>k. k \<noteq> prop \<longrightarrow> node_get n' k = node_get n k)))
       \<and> (getStyleById h fg styleId = Some style \<and> style_paints style = [] \<longrightarrow>
            applyColorStyle prop h fg n styleId
              = Inl (Error (''Color style '' @ template h (style_name style)
                            @ '' has no paints defined.'')))
       \<and> (getStyleById h fg styleId = None \<longrightarrow>
            applyColorStyle prop h fg n styleId
              = Inl (Error (''Color style with ID '' @ template h styleId @ '' not found.'')))
       \<and> (selection fg = n # rest \<and> truthy (lookup params ''styleId'')
            \<and> applyColorStyle prop h fg n (lookup params ''styleId'') = Inl e \<longrightarrow>
            setPaintCmd prop noun Noun h fg params = (Inl e, fg))
       \<and> (\<exists>n'. setColor prop n color = Inr n'
             \<and> node_get n' prop = JArr
                 (case paints of
                    [] \<Rightarrow> [JObj [(''type'', JStr ''SOLID''), (''color'', color)]]
                  | p # rest \<Rightarrow>
                      if paint_type p = Some ''SOLID''
                      then JObj [(''type'', JStr ''SOLID''), (''color'', color)] # rest
                      else JObj [(''type'', JStr ''SOLID''), (''color'', color)] # p # rest)
             \<and> (\<forall>k. k \<noteq> prop \<longrightarrow> node_get n' k = node_get n k))
       \<and> (\<exists>n'. setGradient prop n gradient = Inr n'
             \<and> node_get n' prop = JArr
                 (case paints of
                    [] \<Rightarrow> [gradient]
                  | p # rest \<Rightarrow>
                      if \<exists>t. paint_type p = Some t \<and> startsWith t ''GRADIENT''
                      then gradient # rest
                      else gradient # p # rest)
             \<and> (\<forall>k. k \<noteq> prop \<longrightarrow> node_get n' k = node_get n k))"
proof -
  have cmd: "selection fg = n # rest \<and> truthy (lookup params ''styleId'')
            \<and> applyColorStyle prop h fg n (lookup params ''styleId'') = Inl e \<longrightarrow>
            setPaintCmd prop noun Noun h fg params = (Inl e, fg)"
    by (simp add: setPaintCmd_def)
  show ?thesis
  proof (cases paints)
    case Nil
    with paints cmd show ?thesis
      by (simp add: applyColorStyle_def setColor_def setGradient_def array_or_empty_def
          node_get_node_set)
  next
    case (Cons p rest')
    with wf obtain t where t: "paint_type p = Some t" by auto
    from paint_type_get_prop [OF t] Cons paints t cmd show ?thesis
      by (simp add: applyColorStyle_def setColor_def setGradient_def array_or_empty_def
          node_get_node_set)
  qed
qed

text \<open>
  The theorem on the sample rectangle: its fills start with a solid paint, its strokes
  with an image, and after the style \<open>brand\<close> is applied its fills start with a gradient.
\<close>

theorem paint_replacement_witness:
  "map_sum id (\<lambda>n'. node_get n' ''fills'') (setFillColor rectangle red)
     = Inr (JArr [solid red, image_paint])
   \<and> map_sum id (\<lambda>n'. node_get n' ''strokes'') (setStrokeColor rectangle red)
     = Inr (JArr [solid red, image_paint, solid blue])
   \<and> map_sum id (\<lambda>n'. node_get n' ''fills'') (setFillGradient rectangle linear_gradient)
     = Inr (JArr [linear_gradient, solid blue, image_paint])
   \<and> map_sum id (\<lambda>n'. node_get n' ''fills'')
        (applyFillColorStyle sample_host (document [rectangle] [brand]) rectangle (JStr ''S:1''))
     = Inr (JArr [linear_gradient, solid red])
   \<and> map_sum id (\<lambda>n'. node_get n' ''fills'')
        (setFillGradient (node_set rectangle ''fills'' (JArr [linear_gradient, solid red]))
           linear_gradient)
     = Inr (JArr [linear_gradient, solid red])
   \<and> applyFillColorStyle sample_host (document [rectangle] [brand]) rectangle (JStr ''S:7'')
     = Inl (Error ''Color style with ID S:7 not found.'')"
proof -
  let ?fg = "document [rectangle] [brand]"
  let ?g = "node_set rectangle ''fills'' (JArr [linear_gradient, solid red])"
  have f: "node_get rectangle ''fills'' = JArr [solid blue, image_paint]"
    by (simp add: node_get_def rectangle_def lookup_def)
  have s: "node_get rectangle ''strokes'' = JArr [image_paint, solid blue]"
    by (simp add: node_get_def rectangle_def lookup_def)
  have g: "node_get ?g ''fills'' = JArr [linear_gradient, solid red]"
    by (simp add: node_get_node_set)
  have wf: "\<forall>p \<in> set [solid blue, image_paint]. paint_type p \<noteq> None"
    "\<forall>p \<in> set [image_paint, solid blue]. paint_type p \<noteq> None"
    "\<forall>p \<in> set [linear_gradient, solid red]. paint_type p \<noteq> None"
    by (simp_all add: paint_type_def solid_def image_paint_def linear_gradient_def lookup_def)
  have st: "getStyleById sample_host ?fg (JStr ''S:1'') = Some brand"
    "style_paints brand = [linear_gradient, solid red]"
    "getStyleById sample_host ?fg (JStr ''S:7'') = None"
    by (simp_all add: sample_host_def document_def brand_def)
  have ty: "paint_type (solid blue) = Some ''SOLID''" "paint_type image_paint = Some ''IMAGE''"
    "paint_type linear_gradient = Some ''GRADIENT_LINEAR''"
    by (simp_all add: paint_type_def solid_def image_paint_def linear_gradient_def lookup_def)
  note F = paint_replacement [OF f wf(1), where h = sample_host and fg = ?fg
      and styleId = "JStr ''S:1''" and style = brand and color = red
      and gradient = linear_gradient]
  note F' = paint_replacement [OF f wf(1), where h = sample_host and fg = ?fg
      and styleId = "JStr ''S:7''"]
  note S = paint_replacement [OF s wf(2), where h = sample_host and fg = ?fg
      and styleId = "JStr ''S:1''" and style = brand and color = red
      and gradient = linear_gradient]
  note G = paint_replacement [OF g wf(3), where h = sample_host and fg = ?fg
      and styleId = "JStr ''S:1''" and style = brand and color = red
      and gradient = linear_gradient]
  note solidc = conjunct2 [THEN conjunct2, THEN conjunct2, THEN conjunct2, THEN conjunct1]
  note gradc = conjunct2 [THEN conjunct2, THEN conjunct2, THEN conjunct2, THEN conjunct2]
  have 1: "map_sum id (\<lambda>n'. node_get n' ''fills'') (setFillColor rectangle red)
     = Inr (JArr [solid red, image_paint])"
    using F [THEN solidc] by (auto simp: ty [unfolded solid_def] setFillColor_def solid_def)
  have 2: "map_sum id (\<lambda>n'. node_get n' ''strokes'') (setStrokeColor rectangle red)
     = Inr (JArr [solid red, image_paint, solid blue])"
    using S [THEN solidc] by (auto simp: ty setStrokeColor_def solid_def)
  have 3: "map_sum id (\<lambda>n'. node_get n' ''fills'') (setFillGradient rectangle linear_gradient)
     = Inr (JArr [linear_gradient, solid blue, image_paint])"
    using F [THEN gradc]
    by (auto simp: ty [unfolded solid_def] setFillGradient_def startsWith_def solid_def)
  have 4: "map_sum id (\<lambda>n'. node_get n' ''fills'')
        (applyFillColorStyle sample_host ?fg rectangle (JStr ''S:1''))
     = Inr (JArr [linear_gradient, solid red])"
    using F [THEN conjunct1] st by (auto simp: applyFillColorStyle_def)
  have 5: "map_sum id (\<lambda>n'. node_get n' ''fills'') (setFillGradient ?g linear_gradient)
     = Inr (JArr [linear_gradient, solid red])"
    using G [THEN gradc] by (auto simp: ty setFillGradient_def startsWith_def)
  have 6: "applyFillColorStyle sample_host ?fg rectangle (JStr ''S:7'')
     = Inl (Error ''Color style with ID S:7 not found.'')"
    using F' [THEN conjunct2, THEN conjunct2, THEN conjunct1] st
    by (simp add: applyFillColorStyle_def template_def)
  from 1 2 3 4 5 6 show ?thesis by (intro conjI)
qed

section \<open>Parameters that are zero\<close>

text \<open>
  C9. \<^verbatim>\<open>params.x || figma.viewport.center.x\<close> takes the viewport centre for an
  \<^verbatim>\<open>x\<close> that is 0, as it does for a missing one, and likewise for \<^verbatim>\<open>y\<close>: the node
  made by \<^verbatim>\<open>create-rectangle\<close> or \<^verbatim>\<open>create-text\<close>, which is the selection afterwards,
  has the centre coordinate there. \<^verbatim>\<open>scale || 1\<close> takes 1 for a scale that is 0: a
  PNG or JPG export of an exportable selected node is requested with the constraint
  \<^verbatim>\<open>{ type: 'SCALE', value: 1 }\<close>.
\<close>

theorem zero_is_absent:
  "(lookup params ''x'' = JNum 0 \<longrightarrow>
      (\<exists>rect. selection (snd (createRectangleCmd h fg params)) = [rect]
             \<and> node_get rect ''x'' = JNum (center_x fg))
    \<and> (\<exists>text. selection (snd (createTextCmd h fg params)) = [text]
             \<and> node_get text ''x'' = JNum (center_x fg)))
 \<and> (lookup params ''y'' = JNum 0 \<longrightarrow>
      (\<exists>rect. selection (snd (createRectangleCmd h fg params)) = [rect]
             \<and> node_get rect ''y'' = JNum (center_y fg))
    \<and> (\<exists>text. selection (snd (createTextCmd h fg params)) = [text]
             \<and> node_get text ''y'' = JNum (center_y fg)))
 \<and> (lookup params ''scale'' = JNum 0 \<and> selection fg = n # rest \<and> isExportable n
      \<and> lookup params ''format'' = JStr f \<and> f \<noteq> []
      \<and> (toUpperCase h f = ''PNG'' \<or> toUpperCase h f = ''JPG'') \<longrightarrow>
      exported (snd (exportSelection h fg params))
        = exported fg @ [(n, [(''format'', JStr (toUpperCase h f)),
                             (''constraint'', JObj [(''type'', JStr ''SCALE''), (''value'', JNum 1)])])])"
  apply (intro conjI impI)
      apply (simp_all add: createRectangleCmd_def createTextCmd_def Let_def js_or_def node_get_node_set split: prod.splits)
  apply (auto simp: exportSelection_def exportSettings_def Let_def js_or_def split: sum.splits)
  done

theorem zero_is_absent_witness:
  "selection (snd (createRectangleCmd sample_host (document [] []) [(''x'', JNum 0), (''y'', JNum 0)]))
     = [node_set (node_set rectangle ''x'' (JNum 40)) ''y'' (JNum 30)]
   \<and> node_get (node_set (node_set rectangle ''x'' (JNum 40)) ''y'' (JNum 30)) ''x'' = JNum 40
   \<and> node_get (node_set (node_set rectangle ''x'' (JNum 40)) ''y'' (JNum 30)) ''y'' = JNum 30
   \<and> selection (snd (createTextCmd sample_host (document [] []) [(''x'', JNum 0), (''y'', JNum 0)]))
     = [node_set (node_set (node_set textNode ''x'' (JNum 40)) ''y'' (JNum 30))
          ''characters'' (JStr ''Hello World'')]
   \<and> exported (snd (exportSelection sample_host (document [rectangle] [])
                      [(''format'', JStr ''png''), (''scale'', JNum 0)]))
     = [(rectangle, [(''format'', JStr ''PNG''),
                     (''constraint'', JObj [(''type'', JStr ''SCALE''), (''value'', JNum 1)])])]"
proof -
  have e: "isExportable rectangle"
    by (simp add: isExportable_def rectangle_def node_get_def lookup_def exportableNodeTypes_def)
  have u: "toUpperCase sample_host ''png'' = ''PNG''" by code_simp
  show ?thesis
    using zero_is_absent [of "[(''x'', JNum 0), (''y'', JNum 0)]" sample_host "document [] []"]
      zero_is_absent [of "[(''format'', JStr ''png''), (''scale'', JNum 0)]" sample_host
        "document [rectangle] []" rectangle "[]" "''png''"] e u
    by (simp add: createRectangleCmd_def createTextCmd_def Let_def js_or_def lookup_def
        sample_host_def document_def node_get_node_set)
qed

section \<open>The export command\<close>

lemma exportSettings_str:
  "exportSettings h (JStr f) s =
     (if toUpperCase h f = ''PNG'' \<or> toUpperCase h f = ''JPG'' then
        Inr [(''format'', JStr (toUpperCase h f)),
             (''constraint'', JObj [(''type'', JStr ''SCALE''), (''value'', s)])]
      else if toUpperCase h f = ''SVG'' \<or> toUpperCase h f = ''PDF'' then
        Inr [(''format'', JStr (toUpperCase h f))]
      else Inl (Error (''Unsupported export format: '' @ f)))"
  by (simp add: exportSettings_def template_def)

text \<open>
  The claim C3 says that a selected node of a type outside the list makes the command
  fail with a message naming the type. The check of \<^verbatim>\<open>format\<close> comes first in the
  source: without a format the message is the one about the format, whatever the node.
\<close>

theorem export_counterexample:
  "\<not> isExportable bare
   \<and> node_get bare ''type'' = JStr ''TEXT_PATH''
   \<and> exportSelection sample_host (document [bare] []) [(''scale'', JNum 2)]
       = (Inl (Error ''Format is required for exporting.''), document [bare] [])"
  by (simp add: exportSelection_def isExportable_def bare_def node_get_def lookup_def
      exportableNodeTypes_def document_def)

text \<open>
  C3, amended. With nothing selected \<^verbatim>\<open>export-selection\<close> fails with
  \<^verbatim>\<open>Please select a node to export.\<close> and leaves the host untouched, so no export is
  requested. With a first selected node \<open>n\<close>: a missing (falsy) format fails with
  \<^verbatim>\<open>Format is required for exporting.\<close>; given a format, a type of \<open>n\<close> outside the
  list fails with \<^verbatim>\<open>Node type <type> is not exportable.\<close>; for an exportable \<open>n\<close>
  and a string format, what \<^verbatim>\<open>toUpperCase\<close> of the language makes of the format
  decides: \<^verbatim>\<open>PNG\<close> and \<^verbatim>\<open>JPG\<close> request the export with that format and the
  constraint \<^verbatim>\<open>SCALE\<close> of the given scale, or 1 when the scale is missing (falsy);
  \<^verbatim>\<open>SVG\<close> and \<^verbatim>\<open>PDF\<close> request it with the format alone; any other result fails with
  \<^verbatim>\<open>Unsupported export format: <format>\<close>; and a format that is no string fails too.
  Two formats with one upper-cased form, such as two spellings that differ in case, lead
  to the same export request.
\<close>

theorem export_selection:
  "(selection fg = [] \<longrightarrow>
      exportSelection h fg params = (Inl (Error ''Please select a node to export.''), fg))
 \<and> (selection fg = n # rest \<and> \<not> truthy (lookup params ''format'') \<longrightarrow>
      exportSelection h fg params = (Inl (Error ''Format is required for exporting.''), fg))
 \<and> (selection fg = n # rest \<and> truthy (lookup params ''format'') \<and> \<not> isExportable n
      \<and> node_get n ''type'' = JStr t \<longrightarrow>
      exportSelection h fg params = (Inl (Error (''Node type '' @ t @ '' is not exportable.'')), fg))
 \<and> (selection fg = n # rest \<and> isExportable n \<and> lookup params ''format'' = JStr f \<and> f \<noteq> []
      \<and> toUpperCase h f \<in> {''PNG'', ''JPG''} \<longrightarrow>
      exported (snd (exportSelection h fg params))
        = exported fg @
            [(n, [(''format'', JStr (toUpperCase h f)),
                  (''constraint'',
                   JObj [(''type'', JStr ''SCALE''),
                         (''value'', if truthy (lookup params ''scale'')
                                     then lookup params ''scale'' else JNum 1)])])])
 \<and> (selection fg = n # rest \<and> isExportable n \<and> lookup params ''format'' = JStr f \<and> f \<noteq> []
      \<and> toUpperCase h f \<in> {''SVG'', ''PDF''} \<longrightarrow>
      exported (snd (exportSelection h fg params))
        = exported fg @ [(n, [(''format'', JStr (toUpperCase h f))])])
 \<and> (selection fg = n # rest \<and> isExportable n \<and> lookup params ''format'' = JStr f \<and> f \<noteq> []
      \<and> toUpperCase h f \<notin> {''PNG'', ''JPG'', ''SVG'', ''PDF''} \<longrightarrow>
      exportSelection h fg params = (Inl (Error (''Unsupported export format: '' @ f)), fg))
 \<and> (selection fg = n # rest \<and> isExportable n \<and> truthy (lookup params ''format'')
      \<and> (\<forall>f. lookup params ''format'' \<noteq> JStr f) \<longrightarrow>
      (\<exists>e. exportSelection h fg params = (Inl e, fg)))
 \<and> (selection fg = n # rest \<and> isExportable n
      \<and> lookup params ''format'' = JStr f \<and> f \<noteq> []
      \<and> lookup params' ''format'' = JStr f' \<and> f' \<noteq> []
      \<and> toUpperCase h f' = toUpperCase h f
      \<and> lookup params' ''scale'' = lookup params ''scale'' \<longrightarrow>
      exported (snd (exportSelection h fg params'))
        = exported (snd (exportSelection h fg params)))"
proof -
  let ?fmt = "lookup params ''format''"
  have c1: "selection fg = [] \<longrightarrow>
      exportSelection h fg params = (Inl (Error ''Please select a node to export.''), fg)"
    by (simp add: exportSelection_def)
  have c2: "selection fg = n # rest \<and> \<not> truthy ?fmt \<longrightarrow>
      exportSelection h fg params = (Inl (Error ''Format is required for exporting.''), fg)"
    by (simp add: exportSelection_def)
  have c3: "selection fg = n # rest \<and> truthy ?fmt \<and> \<not> isExportable n
      \<and> node_get n ''type'' = JStr t \<longrightarrow>
      exportSelection h fg params = (Inl (Error (''Node type '' @ t @ '' is not exportable.'')), fg)"
    by (simp add: exportSelection_def template_def)
  have c4: "selection fg = n # rest \<and> isExportable n \<and> ?fmt = JStr f \<and> f \<noteq> []
      \<and> toUpperCase h f \<in> {''PNG'', ''JPG''} \<longrightarrow>
      exported (snd (exportSelection h fg params))
        = exported fg @
            [(n, [(''format'', JStr (toUpperCase h f)),
                  (''constraint'',
                   JObj [(''type'', JStr ''SCALE''),
                         (''value'', if truthy (lookup params ''scale'')
                                     then lookup params ''scale'' else JNum 1)])])]"
    by (auto simp: exportSelection_def exportSettings_str js_or_def Let_def split: sum.splits)
  have c5: "selection fg = n # rest \<and> isExportable n \<and> ?fmt = JStr f \<and> f \<noteq> []
      \<and> toUpperCase h f \<in> {''SVG'', ''PDF''} \<longrightarrow>
      exported (snd (exportSelection h fg params))
        = exported fg @ [(n, [(''format'', JStr (toUpperCase h f))])]"
    by (auto simp: exportSelection_def exportSettings_str Let_def split: sum.splits)
  have c6: "selection fg = n # rest \<and> isExportable n \<and> ?fmt = JStr f \<and> f \<noteq> []
      \<and> toUpperCase h f \<notin> {''PNG'', ''JPG'', ''SVG'', ''PDF''} \<longrightarrow>
      exportSelection h fg params = (Inl (Error (''Unsupported export format: '' @ f)), fg)"
    by (simp add: exportSelection_def exportSettings_str)
  have c7: "selection fg = n # rest \<and> isExportable n \<and> truthy ?fmt
      \<and> (\<forall>f. ?fmt \<noteq> JStr f) \<longrightarrow>
      (\<exists>e. exportSelection h fg params = (Inl e, fg))"
    by (cases ?fmt) (simp_all add: exportSelection_def exportSettings_def)
  have c8: "selection fg = n # rest \<and> isExportable n
      \<and> ?fmt = JStr f \<and> f \<noteq> []
      \<and> lookup params' ''format'' = JStr f' \<and> f' \<noteq> []
      \<and> toUpperCase h f' = toUpperCase h f
      \<and> lookup params' ''scale'' = lookup params ''scale'' \<longrightarrow>
      exported (snd (exportSelection h fg params'))
        = exported (snd (exportSelection h fg params))"
    by (auto simp: exportSelection_def exportSettings_str Let_def split: sum.splits)
  from c1 c2 c3 c4 c5 c6 c7 c8 show ?thesis by (intro conjI)
qed

text \<open>
  The theorem on the sample host, whose upper-casing knows the ASCII letters and the
  long s: \<^verbatim>\<open>png\<close>, \<^verbatim>\<open>jPg\<close> and \<^verbatim>\<open>svg\<close> are accepted, as is \<^verbatim>\<open>svg\<close> spelt with a long
  s, and \<^verbatim>\<open>gif\<close> is not.
\<close>

theorem export_selection_witness:
  "exportSelection sample_host (document [] []) [(''format'', JStr ''png'')]
     = (Inl (Error ''Please select a node to export.''), document [] [])
   \<and> exportSelection sample_host (document [bare] []) [(''format'', JStr ''png'')]
     = (Inl (Error ''Node type TEXT_PATH is not exportable.''), document [bare] [])
   \<and> exported (snd (exportSelection sample_host (document [rectangle] [])
                      [(''format'', JStr ''jPg''), (''scale'', JNum 2)]))
     = [(rectangle, [(''format'', JStr ''JPG''),
                     (''constraint'', JObj [(''type'', JStr ''SCALE''), (''value'', JNum 2)])])]
   \<and> exported (snd (exportSelection sample_host (document [rectangle] []) [(''format'', JStr ''png'')]))
     = [(rectangle, [(''format'', JStr ''PNG''),
                     (''constraint'', JObj [(''type'', JStr ''SCALE''), (''value'', JNum 1)])])]
   \<and> exported (snd (exportSelection sample_host (document [rectangle] [])
                      [(''format'', JStr ''svg''), (''scale'', JNum 2)]))
     = [(rectangle, [(''format'', JStr ''SVG'')])]
   \<and> exported (snd (exportSelection sample_host (document [rectangle] [])
                      [(''format'', JStr ([CHR 0xC5, CHR 0xBF] @ ''vg''))]))
     = [(rectangle, [(''format'', JStr ''SVG'')])]
   \<and> exportSelection sample_host (document [rectangle] []) [(''format'', JStr ''gif'')]
     = (Inl (Error ''Unsupported export format: gif''), document [rectangle] [])"
proof -
  let ?r = "document [rectangle] []"
  let ?longs = "[CHR 0xC5, CHR 0xBF] @ ''vg''"
  have e: "isExportable rectangle" "\<not> isExportable bare"
    "node_get bare ''type'' = JStr ''TEXT_PATH''"
    by (simp_all add: isExportable_def rectangle_def bare_def node_get_def lookup_def
        exportableNodeTypes_def)
  have u: "toUpperCase sample_host ''png'' = ''PNG''" "toUpperCase sample_host ''jPg'' = ''JPG''"
    "toUpperCase sample_host ''svg'' = ''SVG''" "toUpperCase sample_host ''gif'' = ''GIF''"
    "toUpperCase sample_host ?longs = ''SVG''"
    by code_simp+
  have s: "selection (document [] []) = []" "selection (document [bare] []) = [bare]"
    "selection ?r = [rectangle]" "exported ?r = []"
    by (simp_all add: document_def)
  note k1 = conjunct1
  note k3 = conjunct2 [THEN conjunct2, THEN conjunct1]
  note k4 = conjunct2 [THEN conjunct2, THEN conjunct2, THEN conjunct1]
  note k5 = conjunct2 [THEN conjunct2, THEN conjunct2, THEN conjunct2, THEN conjunct1]
  note k6 = conjunct2 [THEN conjunct2, THEN conjunct2, THEN conjunct2, THEN conjunct2,
      THEN conjunct1]
  have 1: "exportSelection sample_host (document [] []) [(''format'', JStr ''png'')]
     = (Inl (Error ''Please select a node to export.''), document [] [])"
    using export_selection [where fg = "document [] []" and h = sample_host
        and params = "[(''format'', JStr ''png'')]", THEN k1] s
    by simp
  have 2: "exportSelection sample_host (document [bare] []) [(''format'', JStr ''png'')]
     = (Inl (Error ''Node type TEXT_PATH is not exportable.''), document [bare] [])"
    using export_selection [where fg = "document [bare] []" and h = sample_host and n = bare
        and rest = "[]" and params = "[(''format'', JStr ''png'')]" and t = "''TEXT_PATH''",
        THEN k3] s e
    by (simp add: lookup_def)
  have 3: "exported (snd (exportSelection sample_host ?r
                      [(''format'', JStr ''jPg''), (''scale'', JNum 2)]))
     = [(rectangle, [(''format'', JStr ''JPG''),
                     (''constraint'', JObj [(''type'', JStr ''SCALE''), (''value'', JNum 2)])])]"
    using export_selection [where fg = ?r and h = sample_host and n = rectangle
        and rest = "[]" and f = "''jPg''"
        and params = "[(''format'', JStr ''jPg''), (''scale'', JNum 2)]", THEN k4] s e u
    by (simp add: lookup_def)
  have 4: "exported (snd (exportSelection sample_host ?r [(''format'', JStr ''png'')]))
     = [(rectangle, [(''format'', JStr ''PNG''),
                     (''constraint'', JObj [(''type'', JStr ''SCALE''), (''value'', JNum 1)])])]"
    using export_selection [where fg = ?r and h = sample_host and n = rectangle
        and rest = "[]" and f = "''png''" and params = "[(''format'', JStr ''png'')]",
        THEN k4] s e u
    by (simp add: lookup_def)
  have 5: "exported (snd (exportSelection sample_host ?r
                      [(''format'', JStr ''svg''), (''scale'', JNum 2)]))
     = [(rectangle, [(''format'', JStr ''SVG'')])]"
    using export_selection [where fg = ?r and h = sample_host and n = rectangle
        and rest = "[]" and f = "''svg''"
        and params = "[(''format'', JStr ''svg''), (''scale'', JNum 2)]", THEN k5] s e u
    by (simp add: lookup_def)
  have 6: "exported (snd (exportSelection sample_host ?r [(''format'', JStr ?longs)]))
     = [(rectangle, [(''format'', JStr ''SVG'')])]"
    using export_selection [where fg = ?r and h = sample_host and n = rectangle
        and rest = "[]" and f = ?longs and params = "[(''format'', JStr ?longs)]",
        THEN k5] s e u(5)
    by (simp add: lookup_def)
  have 7: "exportSelection sample_host ?r [(''format'', JStr ''gif'')]
     = (Inl (Error ''Unsupported export format: gif''), ?r)"
    using export_selection [where fg = ?r and h = sample_host and n = rectangle
        and rest = "[]" and f = "''gif''" and params = "[(''format'', JStr ''gif'')]",
        THEN k6] s e u
    by (simp add: lookup_def)
  from 1 2 3 4 5 6 7 show ?thesis by (intro conjI)
qed

section \<open>The projection of a node\<close>

text \<open>
  \<^verbatim>\<open>getNodeProperties\<close> and the callback of \<^verbatim>\<open>get-selection-details\<close> have no failing
  branch: they are total functions from nodes to objects. The two lemmas give, for
  every key, whether the projection has it and with which value.
\<close>

lemma getNodeProperties_map:
  "map_of (getNodeProperties n) k =
     (if k \<in> {''id'', ''type'', ''name''} then Some (node_get n k)
      else if k \<in> {''visible'', ''locked''}
        then Some (if in_node k n then node_get n k else JUndefined)
      else if k \<in> {''width'', ''height''}
        then (if in_node ''width'' n \<and> in_node ''height'' n then Some (node_get n k) else None)
      else if k \<in> {''x'', ''y''}
        then (if in_node ''x'' n \<and> in_node ''y'' n then Some (node_get n k) else None)
      else if k = ''fills''
        then (if in_node ''fills'' n then Some (node_get n k) else None)
      else if k \<in> {''strokes'', ''strokeWeight''}
        then (if in_node ''strokes'' n then Some (node_get n k) else None)
      else None)"
  by (simp add: getNodeProperties_def Let_def update_conv')

lemma getNodeDetails_map:
  "map_of (getNodeDetails n) k =
     (if k = ''children''
        then (case nchildren n of
                Some children \<Rightarrow> Some (JArr (map (\<lambda>child. JObj (getNodeProperties child)) children))
              | None \<Rightarrow> None)
      else if k = ''constraints''
        then (if in_node ''constraints'' n then Some (node_get n ''constraints'') else None)
      else if k = ''layout''
        then (if in_node ''layoutMode'' n
              then Some (JObj [(''layoutMode'', node_get n ''layoutMode''),
                               (''primaryAxisAlignItems'', node_get n ''primaryAxisAlignItems''),
                               (''counterAxisAlignItems'', node_get n ''counterAxisAlignItems''),
                               (''paddingLeft'', node_get n ''paddingLeft''),
                               (''paddingRight'', node_get n ''paddingRight''),
                               (''paddingTop'', node_get n ''paddingTop''),
                               (''paddingBottom'', node_get n ''paddingBottom''),
                               (''itemSpacing'', node_get n ''itemSpacing'')])
              else None)
      else map_of (getNodeProperties n) k)"
  by (simp add: getNodeDetails_def Let_def update_conv' getNodeProperties_map split: option.splits)

text \<open>
  C4. The projection never fails: \<^verbatim>\<open>getNodeProperties\<close> and the callback of
  \<^verbatim>\<open>get-selection-details\<close> are total. It always has the keys \<^verbatim>\<open>id\<close>, \<^verbatim>\<open>type\<close> and
  \<^verbatim>\<open>name\<close>, with the node's values. A field reaches the client when the projection
  carries it, that is, has it with a value other than \<^verbatim>\<open>undefined\<close>; the projection
  carries an optional field only when the node exposes the capability behind it:
  \<^verbatim>\<open>visible\<close>, \<^verbatim>\<open>locked\<close> and \<^verbatim>\<open>fills\<close> each their own, \<^verbatim>\<open>width\<close> and \<^verbatim>\<open>height\<close> both
  of them, \<^verbatim>\<open>x\<close> and \<^verbatim>\<open>y\<close> both of them, \<^verbatim>\<open>strokes\<close> and \<^verbatim>\<open>strokeWeight\<close> the
  strokes, and in the detailed projection \<^verbatim>\<open>children\<close> the children (each child
  projected by \<^verbatim>\<open>getNodeProperties\<close>), \<^verbatim>\<open>constraints\<close> the constraints and \<^verbatim>\<open>layout\<close>
  the layout mode. For a node without the capability the field is not carried, and
  nothing fails. The first two equations give the object itself, key by key: the
  fields added under an \<^verbatim>\<open>if\<close> are missing from it without the capability, while
  \<^verbatim>\<open>visible\<close> and \<^verbatim>\<open>locked\<close>, written in the object literal, are then keys holding
  \<^verbatim>\<open>undefined\<close>, which \<^verbatim>\<open>JSON.stringify\<close> leaves out.
\<close>

theorem projection:
  "map_of (getNodeProperties n) k =
     (if k \<in> {''id'', ''type'', ''name''} then Some (node_get n k)
      else if k \<in> {''visible'', ''locked''}
        then Some (if in_node k n then node_get n k else JUndefined)
      else if k \<in> {''width'', ''height''}
        then (if in_node ''width'' n \<and> in_node ''height'' n then Some (node_get n k) else None)
      else if k \<in> {''x'', ''y''}
        then (if in_node ''x'' n \<and> in_node ''y'' n then Some (node_get n k) else None)
      else if k = ''fills''
        then (if in_node ''fills'' n then Some (node_get n k) else None)
      else if k \<in> {''strokes'', ''strokeWeight''}
        then (if in_node ''strokes'' n then Some (node_get n k) else None)
      else None)
   \<and> map_of (getNodeDetails n) k =
     (if k = ''children''
        then (case nchildren n of
                Some children \<Rightarrow> Some (JArr (map (\<lambda>child. JObj (getNodeProperties child)) children))
              | None \<Rightarrow> None)
      else if k = ''constraints''
        then (if in_node ''constraints'' n then Some (node_get n ''constraints'') else None)
      else if k = ''layout''
        then (if in_node ''layoutMode'' n
              then Some (JObj [(''layoutMode'', node_get n ''layoutMode''),
                               (''primaryAxisAlignItems'', node_get n ''primaryAxisAlignItems''),
                               (''counterAxisAlignItems'', node_get n ''counterAxisAlignItems''),
                               (''paddingLeft'', node_get n ''paddingLeft''),
                               (''paddingRight'', node_get n ''paddingRight''),
                               (''paddingTop'', node_get n ''paddingTop''),
                               (''paddingBottom'', node_get n ''paddingBottom''),
                               (''itemSpacing'', node_get n ''itemSpacing'')])
              else None)
      else map_of (getNodeProperties n) k)
   \<and> carries (getNodeProperties n) k =
       (node_get n k \<noteq> JUndefined
        \<and> (k \<in> {''id'', ''type'', ''name''}
           \<or> k \<in> {''visible'', ''locked'', ''fills''} \<and> in_node k n
           \<or> k \<in> {''width'', ''height''} \<and> in_node ''width'' n \<and> in_node ''height'' n
           \<or> k \<in> {''x'', ''y''} \<and> in_node ''x'' n \<and> in_node ''y'' n
           \<or> k \<in> {''strokes'', ''strokeWeight''} \<and> in_node ''strokes'' n))
   \<and> carries (getNodeDetails n) k =
       (if k = ''children'' then in_node ''children'' n
        else if k = ''constraints''
          then in_node ''constraints'' n \<and> node_get n ''constraints'' \<noteq> JUndefined
        else if k = ''layout'' then in_node ''layoutMode'' n
        else carries (getNodeProperties n) k)"
proof -
  have a: "carries (getNodeProperties n) k =
       (node_get n k \<noteq> JUndefined
        \<and> (k \<in> {''id'', ''type'', ''name''}
           \<or> k \<in> {''visible'', ''locked'', ''fills''} \<and> in_node k n
           \<or> k \<in> {''width'', ''height''} \<and> in_node ''width'' n \<and> in_node ''height'' n
           \<or> k \<in> {''x'', ''y''} \<and> in_node ''x'' n \<and> in_node ''y'' n
           \<or> k \<in> {''strokes'', ''strokeWeight''} \<and> in_node ''strokes'' n))"
    unfolding carries_def getNodeProperties_map by auto
  have b: "carries (getNodeDetails n) k =
       (if k = ''children'' then in_node ''children'' n
        else if k = ''constraints''
          then in_node ''constraints'' n \<and> node_get n ''constraints'' \<noteq> JUndefined
        else if k = ''layout'' then in_node ''layoutMode'' n
        else carries (getNodeProperties n) k)"
    unfolding carries_def getNodeDetails_map
    by (auto simp: in_node_def split: option.splits)
  from getNodeProperties_map [of n k] getNodeDetails_map [of n k] a b show ?thesis
    by (intro conjI)
qed

text \<open>
  The theorem on a node that exposes nothing but its identity and on the sample
  rectangle.
\<close>

theorem projection_witness:
  "map_of (getNodeProperties bare) ''fills'' = None
   \<and> map_of (getNodeDetails bare) ''layout'' = None
   \<and> map_of (getNodeDetails bare) ''children'' = None
   \<and> map_of (getNodeProperties rectangle) ''fills'' = Some (JArr [solid blue, image_paint])
   \<and> map_of (getNodeProperties rectangle) ''visible'' = Some (JBool True)
   \<and> map_of (getNodeDetails rectangle) ''constraints''
       = Some (JObj [(''horizontal'', JStr ''MIN''), (''vertical'', JStr ''MIN'')])
   \<and> carries (getNodeProperties bare) ''id''
   \<and> \<not> carries (getNodeProperties bare) ''visible''
   \<and> \<not> carries (getNodeProperties bare) ''locked''
   \<and> \<not> carries (getNodeProperties bare) ''width''
   \<and> \<not> carries (getNodeDetails bare) ''layout''
   \<and> carries (getNodeProperties rectangle) ''visible''
   \<and> carries (getNodeDetails rectangle) ''constraints''"
  using projection [of bare "''fills''"] projection [of bare "''layout''"]
    projection [of bare "''children''"] projection [of rectangle "''fills''"]
    projection [of rectangle "''visible''"] projection [of rectangle "''constraints''"]
    projection [of bare "''id''"] projection [of bare "''visible''"]
    projection [of bare "''locked''"] projection [of bare "''width''"]
  by (simp add: in_node_def bare_def rectangle_def node_get_def lookup_def)

section \<open>The catalog and the switch\<close>

lemma catalog_names:
  "map entry_name catalog
     = map (\<lambda>m. JStr (dotted m)) (filter (\<lambda>m. m \<noteq> ''list-functions'') commands)"
  by (simp add: commands_def catalog_def entry_def entry_name_def lookup_def dotted_def)

lemma catalog_complete: "list_all complete_entry catalog"
  by (simp add: catalog_def entry_def complete_entry_def inputSchema_def described_def
      described_property_def is_string_def lookup_def)

text \<open>
  The claim C5 has the catalog give each command's name. The catalog names are written
  with dots, the case labels with hyphens: no entry is named \<^verbatim>\<open>get-selection\<close>, and the
  entry's name \<^verbatim>\<open>get.selection\<close> is an unknown command for the switch.
\<close>

theorem catalog_counterexample:
  "''get-selection'' \<in> set commands \<and> ''get-selection'' \<noteq> ''list-functions''
   \<and> JStr ''get-selection'' \<notin> set (map entry_name catalog)
   \<and> JStr ''get.selection'' \<in> set (map entry_name catalog)
   \<and> fst (dispatch sample_host (document [] []) ''get.selection'' [])
       = Inl (Error ''Unknown command: get.selection'')"
  by (simp add: commands_def catalog_def entry_def entry_name_def lookup_def dispatch_def)

text \<open>
  C5, amended. The names of the catalog entries are, in the order of the switch, the
  case labels other than \<^verbatim>\<open>list-functions\<close> with every hyphen replaced by a dot. So
  every other command has an entry under its dotted name, and that entry has a
  description and an input schema with described, typed parameters and a list of
  required fields.
\<close>

theorem catalog_entries:
  "map entry_name catalog
     = map (\<lambda>m. JStr (dotted m)) (filter (\<lambda>m. m \<noteq> ''list-functions'') commands)
   \<and> (\<forall>m \<in> set commands. m \<noteq> ''list-functions'' \<longrightarrow>
        (\<exists>e \<in> set catalog. entry_name e = JStr (dotted m) \<and> complete_entry e))"
proof (intro conjI ballI impI)
  show n: "map entry_name catalog
     = map (\<lambda>m. JStr (dotted m)) (filter (\<lambda>m. m \<noteq> ''list-functions'') commands)"
    by (rule catalog_names)
  fix m assume "m \<in> set commands" "m \<noteq> ''list-functions''"
  then have "JStr (dotted m) \<in> set (map entry_name catalog)"
    unfolding n by simp
  then obtain e where "e \<in> set catalog" "entry_name e = JStr (dotted m)" by auto
  moreover from this catalog_complete have "complete_entry e" by (simp add: list_all_iff)
  ultimately show "\<exists>e \<in> set catalog. entry_name e = JStr (dotted m) \<and> complete_entry e" by blast
qed

theorem catalog_entries_witness:
  "''export-selection'' \<in> set commands
   \<and> (\<exists>e \<in> set catalog. entry_name e = JStr ''export.selection'' \<and> complete_entry e)"
proof -
  have a: "''export-selection'' \<in> set commands" by (simp add: commands_def)
  have b: "''export-selection'' \<noteq> ''list-functions''" by simp
  have c: "dotted ''export-selection'' = ''export.selection''" by (simp add: dotted_def)
  from catalog_entries a b c show ?thesis by fastforce
qed

section \<open>Creating or updating a colour style\<close>

lemma strict_eq_JStr: "strict_eq v (JStr s) = (v = JStr s)"
  by (cases v) simp_all

lemma find_split:
  "xs = before @ x # after \<Longrightarrow> \<forall>y \<in> set before. \<not> P y \<Longrightarrow> P x \<Longrightarrow> find P xs = Some x"
  by (induction before arbitrary: xs) auto

lemma update_first_split:
  "xs = before @ x # after \<Longrightarrow> \<forall>y \<in> set before. \<not> P y \<Longrightarrow> P x \<Longrightarrow>
   update_first P f xs = before @ f x # after"
  by (induction before arbitrary: xs) auto

lemma find_None_all: "(\<forall>y \<in> set xs. \<not> P y) \<Longrightarrow> find P xs = None"
  by (induction xs) auto

lemma createOrUpdate_existing:
  assumes "localPaintStyles fg = before @ existing # after"
    and "\<forall>s \<in> set before. style_name s \<noteq> JStr nm" and "style_name existing = JStr nm"
  shows "createOrUpdateColorStyle h fg (JStr nm) color =
           (existing\<lparr>style_paints := [JObj [(''type'', JStr ''SOLID''), (''color'', color)]]\<rparr>,
            fg\<lparr>localPaintStyles :=
                 before @ existing\<lparr>style_paints := [JObj [(''type'', JStr ''SOLID''), (''color'', color)]]\<rparr>
                 # after\<rparr>)"
  using assms
  by (simp add: createOrUpdateColorStyle_def Let_def strict_eq_JStr
      find_split [where P = "\<lambda>s. style_name s = JStr nm"]
      update_first_split [where P = "\<lambda>s. style_name s = JStr nm"])

lemma createOrUpdate_new:
  assumes "\<forall>s \<in> set (localPaintStyles fg). style_name s \<noteq> JStr nm"
  shows "createOrUpdateColorStyle h fg (JStr nm) color =
           ((createPaintStyle h fg)\<lparr>style_name := JStr nm,
               style_paints := [JObj [(''type'', JStr ''SOLID''), (''color'', color)]]\<rparr>,
            fg\<lparr>localPaintStyles := localPaintStyles fg @
                 [(createPaintStyle h fg)\<lparr>style_name := JStr nm,
                    style_paints := [JObj [(''type'', JStr ''SOLID''), (''color'', color)]]\<rparr>]\<rparr>)"
  using assms
  by (simp add: createOrUpdateColorStyle_def Let_def strict_eq_JStr
      find_None_all [where P = "\<lambda>s. style_name s = JStr nm"])

lemma named_update_first:
  "(\<And>x. P (f x) = P x) \<Longrightarrow> length (filter P (update_first P f xs)) = length (filter P xs)"
  by (induction xs) auto

lemma find_None_filter: "find P xs = None \<Longrightarrow> filter P xs = []"
  by (induction xs) (auto split: if_splits)

lemma find_Some_filter: "find P xs = Some x \<Longrightarrow> filter P xs \<noteq> []"
  by (induction xs) (auto split: if_splits)

lemma named_after:
  "length (named (JStr nm) (localPaintStyles (snd (createOrUpdateColorStyle h fg (JStr nm) color))))
     = max 1 (length (named (JStr nm) (localPaintStyles fg)))"
proof (cases "find (\<lambda>style. strict_eq (style_name style) (JStr nm)) (localPaintStyles fg)")
  case None
  from find_None_filter [OF None] None show ?thesis
    by (simp add: createOrUpdateColorStyle_def Let_def named_def)
next
  case (Some a)
  from find_Some_filter [OF Some] have "length (named (JStr nm) (localPaintStyles fg)) \<ge> 1"
    by (simp add: named_def Suc_le_eq)
  with Some show ?thesis
    by (simp add: createOrUpdateColorStyle_def Let_def named_def named_update_first)
qed

lemma createColorStyle_eq:
  "lookup params ''name'' = JStr nm \<Longrightarrow> nm \<noteq> [] \<Longrightarrow> truthy (lookup params ''color'') \<Longrightarrow>
   createColorStyle h fg params =
     (Inr (JObj [(''styleId'',
                  JStr (style_id (fst (createOrUpdateColorStyle h fg (JStr nm) (lookup params ''color'')))))]),
      snd (createOrUpdateColorStyle h fg (JStr nm) (lookup params ''color'')))"
  by (simp add: createColorStyle_def Let_def split: prod.splits)

text \<open>
  The claim C10 ends on: two invocations with one name leave exactly one style with that
  name. Nothing in \<^verbatim>\<open>createOrUpdateColorStyle\<close> removes or merges styles: in a document
  that already has two local paint styles of the name, the first is overwritten and
  both are still there afterwards.
\<close>

theorem create_color_style_counterexample:
  "length (named (JStr ''Brand'') [brand, brand\<lparr>style_id := ''S:2''\<rparr>]) = 2
   \<and> length (named (JStr ''Brand'')
        (localPaintStyles (snd (createColorStyle sample_host
           (snd (createColorStyle sample_host
                  (document [] [brand, brand\<lparr>style_id := ''S:2''\<rparr>])
                  [(''name'', JStr ''Brand''), (''color'', red)]))
           [(''name'', JStr ''Brand''), (''color'', red)])))) = 2"
  by (simp add: createColorStyle_def createOrUpdateColorStyle_def Let_def named_def lookup_def
      document_def brand_def red_def)

text \<open>
  C10, amended. Let \<^verbatim>\<open>create-color-style\<close> be given a name that is a non-empty string
  and a colour that is not falsy (otherwise it fails with
  \<^verbatim>\<open>Name and color are required.\<close>). When some local paint style bears the name, the
  first such style has its paint list overwritten with the single solid paint of the
  colour, its id is returned, and no style is added or removed. When none bears the
  name, one style with the name and that paint list is added and its id returned. So
  the number of styles with the name afterwards is the number before, or 1 when there
  was none; it is the same after a second invocation with the name; and two invocations
  leave exactly one style with the name when at most one had it before.
\<close>

theorem create_color_style:
  assumes name: "lookup params ''name'' = JStr nm" "nm \<noteq> []"
    and color: "truthy (lookup params ''color'')"
    and again: "lookup params' ''name'' = JStr nm" "truthy (lookup params' ''color'')"
  shows "(localPaintStyles fg = before @ existing # after
          \<and> (\<forall>s \<in> set before. style_name s \<noteq> JStr nm) \<and> style_name existing = JStr nm \<longrightarrow>
          createColorStyle h fg params =
            (Inr (JObj [(''styleId'', JStr (style_id existing))]),
             fg\<lparr>localPaintStyles :=
                  before
                  @ existing\<lparr>style_paints :=
                       [JObj [(''type'', JStr ''SOLID''), (''color'', lookup params ''color'')]]\<rparr>
                  # after\<rparr>))
       \<and> ((\<forall>s \<in> set (localPaintStyles fg). style_name s \<noteq> JStr nm) \<longrightarrow>
          createColorStyle h fg params =
            (Inr (JObj [(''styleId'', JStr (style_id (createPaintStyle h fg)))]),
             fg\<lparr>localPaintStyles :=
                  localPaintStyles fg
                  @ [(createPaintStyle h fg)\<lparr>style_name := JStr nm, style_paints :=
                       [JObj [(''type'', JStr ''SOLID''), (''color'', lookup params ''color'')]]\<rparr>]\<rparr>))
       \<and> length (named (JStr nm) (localPaintStyles (snd (createColorStyle h fg params))))
           = max 1 (length (named (JStr nm) (localPaintStyles fg)))
       \<and> length (named (JStr nm)
             (localPaintStyles (snd (createColorStyle h (snd (createColorStyle h fg params)) params'))))
           = max 1 (length (named (JStr nm) (localPaintStyles fg)))
       \<and> (length (named (JStr nm) (localPaintStyles fg)) \<le> 1 \<longrightarrow>
            length (named (JStr nm)
              (localPaintStyles (snd (createColorStyle h (snd (createColorStyle h fg params)) params'))))
            = 1)"
proof -
  note eq = createColorStyle_eq [OF name color] createColorStyle_eq [OF again(1) name(2) again(2)]
  have a: "localPaintStyles fg = before @ existing # after
          \<and> (\<forall>s \<in> set before. style_name s \<noteq> JStr nm) \<and> style_name existing = JStr nm \<longrightarrow>
          createColorStyle h fg params =
            (Inr (JObj [(''styleId'', JStr (style_id existing))]),
             fg\<lparr>localPaintStyles :=
                  before
                  @ existing\<lparr>style_paints :=
                       [JObj [(''type'', JStr ''SOLID''), (''color'', lookup params ''color'')]]\<rparr>
                  # after\<rparr>)"
    by (auto simp: eq createOrUpdate_existing)
  have b: "(\<forall>s \<in> set (localPaintStyles fg). style_name s \<noteq> JStr nm) \<longrightarrow>
          createColorStyle h fg params =
            (Inr (JObj [(''styleId'', JStr (style_id (createPaintStyle h fg)))]),
             fg\<lparr>localPaintStyles :=
                  localPaintStyles fg
                  @ [(createPaintStyle h fg)\<lparr>style_name := JStr nm, style_paints :=
                       [JObj [(''type'', JStr ''SOLID''), (''color'', lookup params ''color'')]]\<rparr>]\<rparr>)"
    by (auto simp: eq createOrUpdate_new)
  have c: "length (named (JStr nm) (localPaintStyles (snd (createColorStyle h fg' params))))
           = max 1 (length (named (JStr nm) (localPaintStyles fg')))" for fg'
    by (simp add: eq named_after)
  have c': "length (named (JStr nm) (localPaintStyles (snd (createColorStyle h fg' params'))))
           = max 1 (length (named (JStr nm) (localPaintStyles fg')))" for fg'
    by (simp add: eq named_after)
  have d: "length (named (JStr nm)
             (localPaintStyles (snd (createColorStyle h (snd (createColorStyle h fg params)) params'))))
           = max 1 (length (named (JStr nm) (localPaintStyles fg)))"
    by (simp add: c c')
  from a b c [of fg] d show ?thesis by simp
qed

theorem create_color_style_witness:
  "createColorStyle sample_host (document [] [brand]) [(''name'', JStr ''Brand''), (''color'', red)]
     = (Inr (JObj [(''styleId'', JStr ''S:1'')]),
        (document [] [brand])\<lparr>localPaintStyles := [brand\<lparr>style_paints := [solid red]\<rparr>]\<rparr>)
   \<and> map style_name (localPaintStyles (snd (createColorStyle sample_host (document [] [brand])
          [(''name'', JStr ''Accent''), (''color'', red)])))
     = [JStr ''Brand'', JStr ''Accent'']
   \<and> length (named (JStr ''Accent'')
        (localPaintStyles (snd (createColorStyle sample_host
           (snd (createColorStyle sample_host (document [] [brand])
                  [(''name'', JStr ''Accent''), (''color'', red)]))
           [(''name'', JStr ''Accent''), (''color'', blue)])))) = 1"
proof -
  let ?p = "[(''name'', JStr ''Brand''), (''color'', red)]"
  let ?q = "[(''name'', JStr ''Accent''), (''color'', red)]"
  let ?q' = "[(''name'', JStr ''Accent''), (''color'', blue)]"
  let ?fg = "document [] [brand]"
  have t: "truthy red" "truthy blue" by (simp_all add: red_def blue_def)
  have l: "lookup ?p ''name'' = JStr ''Brand''" "lookup ?p ''color'' = red"
    "lookup ?q ''name'' = JStr ''Accent''" "lookup ?q ''color'' = red"
    "lookup ?q' ''name'' = JStr ''Accent''" "lookup ?q' ''color'' = blue"
    by (simp_all add: lookup_def)
  have s: "localPaintStyles ?fg = [] @ brand # []" "style_name brand = JStr ''Brand''"
    "style_id brand = ''S:1''"
    by (simp_all add: document_def brand_def)
  have n: "\<forall>s \<in> set (localPaintStyles ?fg). style_name s \<noteq> JStr ''Accent''"
    "length (named (JStr ''Accent'') (localPaintStyles ?fg)) \<le> 1"
    by (simp_all add: document_def brand_def named_def)
  have c: "style_name (createPaintStyle sample_host ?fg\<lparr>style_name := JStr ''Accent'',
             style_paints := [solid red]\<rparr>) = JStr ''Accent''"
    by simp
  have tp: "truthy (lookup ?p ''color'')" "truthy (lookup ?q ''color'')"
    "truthy (lookup ?q' ''color'')" "''Brand'' \<noteq> []" "''Accent'' \<noteq> []"
    by (simp_all add: l t)
  note A = create_color_style [where params = ?p and params' = ?p and nm = "''Brand''"
      and fg = ?fg and before = "[]" and existing = brand and after = "[]" and h = sample_host,
      OF l(1) tp(4) tp(1) l(1) tp(1)]
  note B = create_color_style [where params = ?q and params' = ?q' and nm = "''Accent''"
      and fg = ?fg and before = "[]" and existing = brand and after = "[]" and h = sample_host,
      OF l(3) tp(5) tp(2) l(5) tp(3)]
  have 1: "createColorStyle sample_host ?fg ?p
     = (Inr (JObj [(''styleId'', JStr ''S:1'')]),
        ?fg\<lparr>localPaintStyles := [brand\<lparr>style_paints := [solid red]\<rparr>]\<rparr>)"
    using A [THEN conjunct1] s by (simp add: l solid_def)
  have 2: "createColorStyle sample_host ?fg ?q
     = (Inr (JObj [(''styleId'', JStr (style_id (createPaintStyle sample_host ?fg)))]),
        ?fg\<lparr>localPaintStyles := localPaintStyles ?fg
           @ [(createPaintStyle sample_host ?fg)\<lparr>style_name := JStr ''Accent'',
                style_paints := [solid red]\<rparr>]\<rparr>)"
    using B [THEN conjunct2, THEN conjunct1] n(1) by (simp add: l solid_def)
  have 3: "length (named (JStr ''Accent'')
        (localPaintStyles (snd (createColorStyle sample_host
           (snd (createColorStyle sample_host ?fg ?q)) ?q')))) = 1"
    using B n(2) by blast
  from 1 2 3 show ?thesis by (simp add: document_def brand_def)
qed

section \<open>Reconnecting\<close>

lemma single_attempt_loaded: "single_attempt loaded"
  by (simp add: single_attempt_def loaded_def connect_def)

lemma only_last_open:
  assumes "single_attempt s" "i < length (sockets s)" "sockets s ! i \<noteq> CLOSED"
  shows "i = length (sockets s) - 1 \<and> last (sockets s) \<noteq> CLOSED \<and> timers s = []"
proof -
  from assms(1) have ne: "sockets s \<noteq> []"
    and cl: "list_all (\<lambda>x. x = CLOSED) (butlast (sockets s))"
    and tm: "timers s = (if last (sockets s) = CLOSED then [3000] else [])"
    by (simp_all add: single_attempt_def)
  have i: "i = length (sockets s) - 1"
  proof (rule ccontr)
    assume "i \<noteq> length (sockets s) - 1"
    with assms(2) have "i < length (butlast (sockets s))" by simp
    with cl have "butlast (sockets s) ! i = CLOSED" by (simp add: list_all_length)
    with \<open>i < length (butlast (sockets s))\<close> have "sockets s ! i = CLOSED"
      by (simp add: nth_butlast)
    with assms(3) show False by simp
  qed
  with assms(3) ne have "last (sockets s) \<noteq> CLOSED" by (simp add: last_conv_nth)
  with i tm show ?thesis by simp
qed

lemma update_last: "xs \<noteq> [] \<Longrightarrow> xs[length xs - Suc 0 := y] = butlast xs @ [y]"
  by (induction xs rule: rev_induct) simp_all

lemma list_all_butlast_last:
  "xs \<noteq> [] \<Longrightarrow> list_all P xs = (list_all P (butlast xs) \<and> P (last xs))"
  by (induction xs rule: rev_induct) simp_all

lemma single_attempt_step:
  assumes "single_attempt s" "step parse stringify s s'"
  shows "single_attempt s'"
  using assms(2)
proof cases
  case (open_event i)
  from only_last_open [OF assms(1) open_event(2)] open_event(3) assms(1) open_event(1)
  show ?thesis
    by (simp add: single_attempt_def ws_onopen_def update_last)
next
  case (close_event i event)
  from only_last_open [OF assms(1) close_event(2) close_event(3)] assms(1) close_event(1)
  show ?thesis
    by (simp add: single_attempt_def ws_onclose_def update_last Let_def)
next
  case (error_event i)
  from only_last_open [OF assms(1) error_event(2) error_event(3)] assms(1) error_event(1)
  show ?thesis
    by (auto simp: single_attempt_def ws_onerror_def ws_close_def)
next
  case (message_event i data)
  with assms(1) show ?thesis
    by (simp add: single_attempt_def ws_onmessage_def split: option.splits)
next
  case (window_message v)
  with assms(1) show ?thesis
    by (auto simp: single_attempt_def window_onmessage_def ws_send_def
        split: sum.splits if_splits readyState.splits)
next
  case (timer_fires d ds)
  with assms(1) show ?thesis
    by (auto simp: single_attempt_def connect_def list_all_butlast_last split: if_splits)
qed

lemma reachable_single_attempt: "reachable parse stringify s \<Longrightarrow> single_attempt s"
  by (induction rule: reachable.induct) (auto intro: single_attempt_loaded single_attempt_step)



section \<open>Payloads that are dropped\<close>

text \<open>
  C8. When \<^verbatim>\<open>JSON.parse\<close> throws on the payload of a socket message, the handler only
  writes a line to the console: nothing is handed to \<^verbatim>\<open>parent.postMessage\<close>, so the
  plugin gets no command and posts no response, and nothing is sent on the socket. A
  payload that parses is handed on, wrapped as \<^verbatim>\<open>{ pluginMessage }\<close>. A window message
  whose data has no \<^verbatim>\<open>pluginMessage\<close> key changes nothing: the handler returns with
  the state as it was, or, when the data is \<^verbatim>\<open>undefined\<close> or \<^verbatim>\<open>null\<close>, the property
  read throws before anything is done.
\<close>

theorem malformed_dropped:
  "(parse data = None \<longrightarrow>
      ws_onmessage parse s data = s\<lparr>console := console s @ [''Failed to parse message:'']\<rparr>
    \<and> to_parent (ws_onmessage parse s data) = to_parent s
    \<and> sent (ws_onmessage parse s data) = sent s)
 \<and> (parse data = Some parsed \<longrightarrow>
      to_parent (ws_onmessage parse s data) = to_parent s @ [JObj [(''pluginMessage'', parsed)]])
 \<and> (\<not> has_key v ''pluginMessage'' \<longrightarrow>
      (case window_onmessage stringify s v of
         Inr s' \<Rightarrow> s' = s \<and> v \<noteq> JUndefined \<and> v \<noteq> JNull
       | Inl e \<Rightarrow> v = JUndefined \<or> v = JNull))"
proof -
  have w: "case window_onmessage stringify s v of
         Inr s' \<Rightarrow> s' = s \<and> v \<noteq> JUndefined \<and> v \<noteq> JNull
       | Inl e \<Rightarrow> v = JUndefined \<or> v = JNull"
    if "\<not> has_key v ''pluginMessage''"
    using that
    by (cases v) (auto simp: window_onmessage_def has_key_def lookup_def split: option.splits)
  show ?thesis using w by (simp add: ws_onmessage_def)
qed

theorem malformed_dropped_witness:
  "sample_parse ''{'' = None
   \<and> ws_onmessage sample_parse loaded ''{'' = loaded\<lparr>console := [''Failed to parse message:'']\<rparr>
   \<and> to_parent (ws_onmessage sample_parse loaded ''{'') = []
   \<and> to_parent (ws_onmessage sample_parse loaded ''[]'') = [JObj [(''pluginMessage'', JArr [])]]
   \<and> \<not> has_key (JObj [(''type'', JStr ''resize'')]) ''pluginMessage''
   \<and> window_onmessage sample_stringify loaded (JObj [(''type'', JStr ''resize'')]) = Inr loaded"
proof -
  have p: "sample_parse ''{'' = None" "sample_parse ''[]'' = Some (JArr [])"
    by (simp_all add: sample_parse_def)
  have k: "\<not> has_key (JObj [(''type'', JStr ''resize'')]) ''pluginMessage''"
    by (simp add: has_key_def)
  show ?thesis
    using p k malformed_dropped [of sample_parse "''{''" loaded _ "JObj [(''type'', JStr ''resize'')]" sample_stringify]
      malformed_dropped [of sample_parse "''[]''" loaded "JArr []" "JObj [(''type'', JStr ''resize'')]" sample_stringify]
    by (simp add: window_onmessage_def lookup_def loaded_def connect_def)
qed

end
